theory Spec2Isabelle
  imports Main
begin

chapter \<open>The email mirror\<close>

section \<open>Python text\<close>

text \<open>
  A Python 3 \<^verbatim>\<open>str\<close> is a sequence of Unicode code points, so it is modelled as a list
  of natural numbers, one per code point. \<open>ustr\<close> turns an ASCII literal into such a
  list.
\<close>

type_synonym ustr = "nat list"

definition ustr :: "string \<Rightarrow> ustr" where
  "ustr s = map of_char s"

text \<open>\<^verbatim>\<open>str.split(sep)\<close> for a one-character separator: every occurrence splits.\<close>

fun split_chr :: "nat \<Rightarrow> ustr \<Rightarrow> ustr list" where
  "split_chr sep [] = [[]]"
| "split_chr sep (c # cs) =
     (if c = sep then [] # split_chr sep cs
      else (case split_chr sep cs of
              [] \<Rightarrow> [[c]]
            | p # ps \<Rightarrow> (c # p) # ps))"

text \<open>\<^verbatim>\<open>str.startswith\<close>.\<close>

fun startswith :: "ustr \<Rightarrow> ustr \<Rightarrow> bool" where
  "startswith s [] = True"
| "startswith [] (p # ps) = False"
| "startswith (c # cs) (p # ps) = (c = p \<and> startswith cs ps)"

text \<open>
  \<^verbatim>\<open>str.strip()\<close> removes, at both ends, the code points for which
  \<^verbatim>\<open>str.isspace()\<close> holds.
\<close>

definition isspace :: "nat \<Rightarrow> bool" where
  "isspace c \<longleftrightarrow>
     (9 \<le> c \<and> c \<le> 13) \<or> (28 \<le> c \<and> c \<le> 32) \<or> c = 133 \<or> c = 160 \<or> c = 5760 \<or>
     (8192 \<le> c \<and> c \<le> 8202) \<or> c = 8232 \<or> c = 8233 \<or> c = 8239 \<or> c = 8287 \<or> c = 12288"

definition lstrip :: "ustr \<Rightarrow> ustr" where
  "lstrip s = dropWhile isspace s"

definition rstrip :: "ustr \<Rightarrow> ustr" where
  "rstrip s = rev (dropWhile isspace (rev s))"

definition strip :: "ustr \<Rightarrow> ustr" where
  "strip s = rstrip (lstrip s)"

text \<open>
  \<^verbatim>\<open>text.partition(sep)[0]\<close>: the text before the first occurrence of \<open>sep\<close>, the
  whole text when \<open>sep\<close> does not occur.
\<close>

fun partition_head :: "ustr \<Rightarrow> ustr \<Rightarrow> ustr" where
  "partition_head sep [] = []"
| "partition_head sep (c # cs) =
     (if startswith (c # cs) sep then [] else c # partition_head sep cs)"

text \<open>\<^verbatim>\<open>str(n)\<close> for a non-negative integer, and \<^verbatim>\<open>s.zfill(width)\<close> for a digit string.\<close>

fun str_nat :: "nat \<Rightarrow> ustr" where
  "str_nat n = (if n < 10 then [48 + n] else str_nat (n div 10) @ [48 + n mod 10])"

declare str_nat.simps [simp del]

definition zfill :: "nat \<Rightarrow> ustr \<Rightarrow> ustr" where
  "zfill w s = replicate (w - length s) 48 @ s"

section \<open>Exceptions\<close>

text \<open>
  Every exception the module raises or lets through is a constructor; a function that
  can raise returns \<open>exn + 'a\<close>, with \<open>Inl\<close> the exception.
\<close>

datatype exn =
    ZulipEmailForwardError ustr
  | ZulipEmailUnrecognizedAddressError ustr
  | ValueError
  | IndexError
  | LookupError
  | AssertionError
  | UnicodeDecodeError
  | HeaderParseError
  | AttributeError
  | DoesNotExist
  | MultipleObjectsReturned

section \<open>Settings and library tables\<close>

text \<open>
  \<^verbatim>\<open>settings.EMAIL_GATEWAY_PATTERN\<close> is either the empty string (gateway disabled) or a
  template with one \<^verbatim>\<open>%s\<close> placeholder; the template is given by its two literal
  segments, the text before and the text after the placeholder.
  \<^verbatim>\<open>settings.EMAIL_GATEWAY_EXTRA_PATTERN_HACK\<close> is an optional regular expression that
  replaces the trailing segment when an address is recognised; it is given by what it
  does there: the test whether it matches at the start of the remaining text. It is
  taken to have no capturing group of its own.
\<close>

datatype gateway_pattern = NoGateway | Template ustr ustr

text \<open>
  The Unicode tables of the Python library are parameters outside the ASCII range:
  \<open>uni_alnum\<close> is \<^verbatim>\<open>str.isalnum\<close>, \<open>uni_decimal\<close> the value of a decimal digit
  (\<open>None\<close> for every other code point), \<open>lower\<close> is \<^verbatim>\<open>str.lower\<close>.
\<close>

record settings =
  EMAIL_GATEWAY_PATTERN :: gateway_pattern
  EMAIL_GATEWAY_EXTRA_PATTERN_HACK :: "(ustr \<Rightarrow> bool) option"
  EMAIL_GATEWAY_BOT :: ustr
  ERROR_BOT :: "ustr option"
  uni_alnum :: "nat \<Rightarrow> bool"
  uni_decimal :: "nat \<Rightarrow> nat option"
  lower :: "ustr \<Rightarrow> ustr"

text \<open>The regular-expression class \<^verbatim>\<open>\w\<close>: alphanumeric or underscore.\<close>

definition is_word :: "settings \<Rightarrow> nat \<Rightarrow> bool" where
  "is_word cfg c \<longleftrightarrow>
     (if c < 128
      then (48 \<le> c \<and> c \<le> 57) \<or> (65 \<le> c \<and> c \<le> 90) \<or> (97 \<le> c \<and> c \<le> 122) \<or> c = 95
      else uni_alnum cfg c)"

text \<open>The class \<^verbatim>\<open>\d\<close>, with the value \<^verbatim>\<open>int\<close> gives the digit.\<close>

definition digit_value :: "settings \<Rightarrow> nat \<Rightarrow> nat option" where
  "digit_value cfg c =
     (if c < 128 then (if 48 \<le> c \<and> c \<le> 57 then Some (c - 48) else None)
      else uni_decimal cfg c)"

section \<open>Address codec\<close>

text \<open>
  \<^verbatim>\<open>re.sub("\W", lambda x: "%" + str(ord(x.group(0))).zfill(4), name)\<close>: each code point
  outside \<^verbatim>\<open>\w\<close> becomes \<^verbatim>\<open>%\<close> and its decimal value, padded to at least four digits.
\<close>

definition encode_char :: "settings \<Rightarrow> nat \<Rightarrow> ustr" where
  "encode_char cfg c = (if is_word cfg c then [c] else 37 # zfill 4 (str_nat c))"

definition encode_name :: "settings \<Rightarrow> ustr \<Rightarrow> ustr" where
  "encode_name cfg name = concat (map (encode_char cfg) name)"

definition encode_email_address_helper :: "settings \<Rightarrow> ustr \<Rightarrow> ustr \<Rightarrow> ustr" where
  "encode_email_address_helper cfg name email_token =
     (case EMAIL_GATEWAY_PATTERN cfg of
        NoGateway \<Rightarrow> []
      | Template pre suf \<Rightarrow>
          (let encoded_name = encode_name cfg name;
               encoded_token = encoded_name @ [43] @ email_token
           in pre @ encoded_token @ suf))"

text \<open>
  The lazy group \<^verbatim>\<open>(.*?)\<close> followed by the rest of the expression: the shortest run of
  code points other than newline after which the rest (\<open>P\<close>) matches.
\<close>

fun capture_lazy :: "(ustr \<Rightarrow> bool) \<Rightarrow> ustr \<Rightarrow> ustr option" where
  "capture_lazy P [] = (if P [] then Some [] else None)"
| "capture_lazy P (c # cs) =
     (if P (c # cs) then Some []
      else if c = 10 then None
      else map_option ((#) c) (capture_lazy P cs))"

text \<open>The matcher of the last pattern part, literal unless the extra pattern is set.\<close>

definition trailing_part :: "settings \<Rightarrow> ustr \<Rightarrow> ustr \<Rightarrow> bool" where
  "trailing_part cfg suf rest =
     (case EMAIL_GATEWAY_EXTRA_PATTERN_HACK cfg of
        None \<Rightarrow> startswith rest suf
      | Some hack \<Rightarrow> hack rest)"

text \<open>
  With the empty pattern the only pattern part is the empty string, or the extra
  pattern when that is set; the expression then has no group, so an address it matches
  makes \<^verbatim>\<open>match.group(1)\<close> raise IndexError, and an address the extra pattern does not
  match raises the unrecognised-address error.
\<close>

definition get_email_gateway_message_string_from_address :: "settings \<Rightarrow> ustr \<Rightarrow> exn + ustr" where
  "get_email_gateway_message_string_from_address cfg address =
     (case EMAIL_GATEWAY_PATTERN cfg of
        NoGateway \<Rightarrow>
          (case EMAIL_GATEWAY_EXTRA_PATTERN_HACK cfg of
             None \<Rightarrow> Inl IndexError
           | Some hack \<Rightarrow>
               (if \<not> hack address
                then Inl (ZulipEmailUnrecognizedAddressError (ustr ''No matching address found''))
                else Inl IndexError))
      | Template pre suf \<Rightarrow>
          (if \<not> startswith address pre
           then Inl (ZulipEmailUnrecognizedAddressError (ustr ''No matching address found''))
           else (case capture_lazy (trailing_part cfg suf) (drop (length pre) address) of
                   None \<Rightarrow> Inl (ZulipEmailUnrecognizedAddressError (ustr ''No matching address found''))
                 | Some msg_string \<Rightarrow> Inr msg_string)))"

text \<open>Unpacking a list into two names raises ValueError unless it has two elements.\<close>

fun unpack2 :: "'a list \<Rightarrow> exn + ('a \<times> 'a)" where
  "unpack2 [a, b] = Inr (a, b)"
| "unpack2 _ = Inl ValueError"

text \<open>
  \<^verbatim>\<open>re.sub("%\d{4}", lambda x: unichr(int(x.group(0)[1:])), s)\<close>: scanning from the left,
  a \<^verbatim>\<open>%\<close> followed by four decimal digits becomes the code point of that value.
\<close>

fun unescape :: "settings \<Rightarrow> ustr \<Rightarrow> ustr" where
  "unescape cfg (p # a # b # c # d # rest) =
     (case (digit_value cfg a, digit_value cfg b, digit_value cfg c, digit_value cfg d) of
        (Some x, Some y, Some z, Some w) \<Rightarrow>
          (if p = 37 then (1000 * x + 100 * y + 10 * z + w) # unescape cfg rest
           else p # unescape cfg (a # b # c # d # rest))
      | _ \<Rightarrow> p # unescape cfg (a # b # c # d # rest))"
| "unescape cfg (p # cs) = p # unescape cfg cs"
| "unescape cfg [] = []"

definition decode_email_address :: "settings \<Rightarrow> ustr \<Rightarrow> exn + (ustr \<times> ustr)" where
  "decode_email_address cfg email =
     (case get_email_gateway_message_string_from_address cfg email of
        Inl e \<Rightarrow> Inl e
      | Inr msg_string \<Rightarrow>
          (case (if 46 \<in> set msg_string
                 then unpack2 (split_chr 46 msg_string)
                 else unpack2 (split_chr 43 msg_string)) of
             Inl e \<Rightarrow> Inl e
           | Inr (encoded_stream_name, token) \<Rightarrow>
               Inr (unescape cfg encoded_stream_name, token)))"

section \<open>Parsed email\<close>

text \<open>
  A MIME part carries what the module reads from it: \<^verbatim>\<open>get_content_type()\<close>,
  \<^verbatim>\<open>get_content_charset()\<close>, \<^verbatim>\<open>get_filename()\<close> and the payload. A leaf has a payload of
  bytes (\<open>None\<close> when \<^verbatim>\<open>get_payload(decode=True)\<close> gives no bytes); a multipart has the
  list of its children.
\<close>

datatype part =
    Leaf ustr "ustr option" "ustr option" "nat list option"
  | Multi ustr "ustr option" "ustr option" "part list"

fun get_content_type :: "part \<Rightarrow> ustr" where
  "get_content_type (Leaf ct cs fn pl) = ct"
| "get_content_type (Multi ct cs fn ps) = ct"

fun get_content_charset :: "part \<Rightarrow> ustr option" where
  "get_content_charset (Leaf ct cs fn pl) = cs"
| "get_content_charset (Multi ct cs fn ps) = cs"

fun get_filename :: "part \<Rightarrow> ustr option" where
  "get_filename (Leaf ct cs fn pl) = fn"
| "get_filename (Multi ct cs fn ps) = fn"

text \<open>\<^verbatim>\<open>part.get_payload(decode=True)\<close>: the bytes of a leaf, \<open>None\<close> for a multipart.\<close>

fun get_payload_decoded :: "part \<Rightarrow> nat list option" where
  "get_payload_decoded (Leaf ct cs fn pl) = pl"
| "get_payload_decoded (Multi ct cs fn ps) = None"

text \<open>\<^verbatim>\<open>message.walk()\<close>: the part itself, then its children depth first, in order.\<close>

fun walk :: "part \<Rightarrow> part list" where
  "walk (Leaf ct cs fn pl) = [Leaf ct cs fn pl]"
| "walk (Multi ct cs fn ps) = Multi ct cs fn ps # concat (map walk ps)"

text \<open>
  A message is its headers, in order, and its root part. Header names compare without
  regard to case.
\<close>

record message =
  headers :: "(ustr \<times> ustr) list"
  root :: part

definition get_all :: "settings \<Rightarrow> message \<Rightarrow> ustr \<Rightarrow> ustr list" where
  "get_all cfg msg hname =
     map snd (filter (\<lambda>(k, v). lower cfg k = lower cfg hname) (headers msg))"

definition get_header :: "settings \<Rightarrow> message \<Rightarrow> ustr \<Rightarrow> ustr option" where
  "get_header cfg msg hname = (case get_all cfg msg hname of [] \<Rightarrow> None | v # vs \<Rightarrow> Some v)"

section \<open>External collaborators\<close>

text \<open>
  The functions the module imports are parameters: the codec registry behind
  \<^verbatim>\<open>bytes.decode(charset, errors="ignore")\<close> (\<open>None\<close> for an unknown charset, which
  raises LookupError), the strict \<^verbatim>\<open>bytes.decode('utf-8')\<close> (\<open>None\<close> when it raises
  UnicodeDecodeError), the quotation heuristics of talon, the HTML converter, the
  attachment uploader, the first chunk and charset given by \<^verbatim>\<open>decode_header\<close> (\<open>None\<close>
  when it raises HeaderParseError), the strict \<^verbatim>\<open>bytes.decode(encoding)\<close> (\<open>None\<close> when
  it raises UnicodeDecodeError or LookupError), the search-and-mask of
  \<^verbatim>\<open>redact_stream\<close>, and the lookups of users and recipients.
\<close>

text \<open>A chunk of a decoded header is a string, or bytes.\<close>

datatype header_chunk = StrChunk ustr | BytesChunk "nat list"

datatype recipient_type = PERSONAL | STREAM | HUDDLE | OTHER_TYPE

datatype display_recipient = DisplayName ustr | DisplayUsers "ustr list"

record user_profile =
  user_email :: ustr
  user_realm :: ustr

record recipient =
  recipient_kind :: recipient_type
  recipient_display :: display_recipient

record collaborators =
  bytes_decode :: "ustr \<Rightarrow> nat list \<Rightarrow> ustr option"
  utf8_decode :: "nat list \<Rightarrow> ustr option"
  extract_from_plain :: "ustr \<Rightarrow> ustr"
  extract_from_html :: "ustr \<Rightarrow> ustr"
  convert_html_to_markdown :: "ustr \<Rightarrow> ustr"
  upload_message_image :: "ustr \<Rightarrow> nat \<Rightarrow> ustr \<Rightarrow> nat list \<Rightarrow> user_profile \<Rightarrow> ustr \<Rightarrow> ustr"
  decode_header :: "ustr \<Rightarrow> (header_chunk \<times> ustr option) option"
  bytes_decode_strict :: "ustr \<Rightarrow> nat list \<Rightarrow> ustr option"
  redact_stream :: "ustr \<Rightarrow> ustr"
  get_user_profile_by_id :: "nat list \<Rightarrow> exn + user_profile"
  get_recipient :: "nat list \<Rightarrow> exn + recipient"
  get_user :: "ustr \<Rightarrow> ustr \<Rightarrow> exn + ustr"
  get_system_bot :: "ustr \<Rightarrow> user_profile"

section \<open>Content extraction\<close>

text \<open>
  The truth test \<^verbatim>\<open>if x:\<close> on an optional string: \<open>None\<close> and the empty string are
  false; a true one gives its text.
\<close>

fun if_truthy :: "ustr option \<Rightarrow> ustr option" where
  "if_truthy None = None"
| "if_truthy (Some s) = (if s = [] then None else Some s)"

text \<open>
  The loop of \<^verbatim>\<open>get_message_part_by_type\<close> over the walked parts: a part of the wanted
  type whose charset is missing or empty is passed over; a part of the wanted type
  without bytes fails the assertion.
\<close>

fun part_by_type_loop :: "collaborators \<Rightarrow> ustr \<Rightarrow> part list \<Rightarrow> exn + ustr option" where
  "part_by_type_loop ext content_type [] = Inr None"
| "part_by_type_loop ext content_type (p # ps) =
     (if get_content_type p = content_type
      then (case get_payload_decoded p of
              None \<Rightarrow> Inl AssertionError
            | Some content \<Rightarrow>
                (case if_truthy (get_content_charset p) of
                   None \<Rightarrow> part_by_type_loop ext content_type ps
                 | Some cs \<Rightarrow>
                     (case bytes_decode ext cs content of
                        None \<Rightarrow> Inl LookupError
                      | Some text \<Rightarrow> Inr (Some text))))
      else part_by_type_loop ext content_type ps)"

definition get_message_part_by_type :: "collaborators \<Rightarrow> message \<Rightarrow> ustr \<Rightarrow> exn + ustr option" where
  "get_message_part_by_type ext msg content_type =
     part_by_type_loop ext content_type (walk (root msg))"

definition extract_body :: "collaborators \<Rightarrow> message \<Rightarrow> exn + ustr" where
  "extract_body ext msg =
     (case get_message_part_by_type ext msg (ustr ''text/plain'') of
        Inl e \<Rightarrow> Inl e
      | Inr plaintext_content \<Rightarrow>
          (case if_truthy plaintext_content of
             Some plain \<Rightarrow> Inr (extract_from_plain ext plain)
           | None \<Rightarrow>
               (case get_message_part_by_type ext msg (ustr ''text/html'') of
                  Inl e \<Rightarrow> Inl e
                | Inr html_content \<Rightarrow>
                    (case if_truthy html_content of
                       Some html \<Rightarrow>
                         Inr (convert_html_to_markdown ext (extract_from_html ext html))
                     | None \<Rightarrow>
                         Inl (ZulipEmailForwardError
                                (ustr ''Unable to find plaintext or HTML message body''))))))"

definition filter_footer :: "ustr \<Rightarrow> ustr" where
  "filter_footer text =
     (let possible_footers =
            filter (\<lambda>line. startswith (strip line) (ustr ''--'')) (split_chr 10 text)
      in if length possible_footers \<noteq> 1 then text
         else strip (partition_head (ustr ''--'') text))"

text \<open>\<^verbatim>\<open>"\n".join(links)\<close>.\<close>

fun join_lines :: "ustr list \<Rightarrow> ustr" where
  "join_lines [] = []"
| "join_lines [l] = l"
| "join_lines (l # ls) = l @ [10] @ join_lines ls"

text \<open>
  The links of the immediate children that declare a file name and have bytes; a child
  without bytes is passed over with a warning.
\<close>

fun attachment_links :: "collaborators \<Rightarrow> user_profile \<Rightarrow> ustr \<Rightarrow> part list \<Rightarrow> ustr list" where
  "attachment_links ext user realm [] = []"
| "attachment_links ext user realm (p # ps) =
     (case if_truthy (get_filename p) of
        Some filename \<Rightarrow>
          (case get_payload_decoded p of
             Some attachment \<Rightarrow>
               (ustr ''['' @ filename @ ustr '']('' @
                  upload_message_image ext filename (length attachment)
                    (get_content_type p) attachment user realm @ ustr '')'')
               # attachment_links ext user realm ps
           | None \<Rightarrow> attachment_links ext user realm ps)
      | None \<Rightarrow> attachment_links ext user realm ps)"

definition extract_and_upload_attachments ::
  "settings \<Rightarrow> collaborators \<Rightarrow> message \<Rightarrow> ustr \<Rightarrow> ustr" where
  "extract_and_upload_attachments cfg ext msg realm =
     (let user = get_system_bot ext (EMAIL_GATEWAY_BOT cfg)
      in case root msg of
           Leaf ct cs fn pl \<Rightarrow> []
         | Multi ct cs fn ps \<Rightarrow> join_lines (attachment_links ext user realm ps))"

definition construct_zulip_body ::
  "settings \<Rightarrow> collaborators \<Rightarrow> message \<Rightarrow> ustr \<Rightarrow> exn + ustr" where
  "construct_zulip_body cfg ext msg realm =
     (case extract_body ext msg of
        Inl e \<Rightarrow> Inl e
      | Inr body0 \<Rightarrow>
          (let body1 = filter (\<lambda>c. c \<noteq> 0) body0;
               body2 = filter_footer body1;
               body3 = body2 @ extract_and_upload_attachments cfg ext msg realm;
               body4 = strip body3
           in if body4 = [] then Inr (ustr ''(No email body)'') else Inr body4))"

section \<open>The state the module acts on\<close>

text \<open>
  A stream row, and a hash of the key-value store with the fields the module writes;
  \<open>ttl\<close> is the time to live set by \<^verbatim>\<open>expire\<close>, in seconds. The passing of time, and so
  the expiry itself, is not part of the model.
\<close>

record stream =
  stream_name :: ustr
  stream_email_token :: ustr
  stream_realm :: ustr

record redis_hash =
  uses_left :: "int option"
  user_profile_id :: "nat list option"
  recipient_id :: "nat list option"
  subject :: "nat list option"
  ttl :: "nat option"

definition empty_hash :: redis_hash where
  "empty_hash = \<lparr> uses_left = None, user_profile_id = None, recipient_id = None,
                  subject = None, ttl = None \<rparr>"

text \<open>A message handed to the delivery functions of \<^verbatim>\<open>zerver.lib.actions\<close>.\<close>

datatype sent =
    GatewayMessage ustr ustr ustr ustr ustr
  | StreamMessage ustr ustr ustr ustr ustr
  | PrivateMessage ustr ustr ustr ustr
  | HuddleMessage ustr ustr "ustr list" ustr

record world =
  redis :: "ustr \<rightharpoonup> redis_hash"
  streams :: "stream list"
  outbox :: "sent list"
  queue :: "(ustr \<times> ustr) list"
  error_log :: "ustr list"

section \<open>Missed-message addresses\<close>

definition missed_message_redis_key :: "ustr \<Rightarrow> ustr" where
  "missed_message_redis_key token = ustr ''missed_message:'' @ token"

definition is_mm_32_format :: "ustr \<Rightarrow> bool" where
  "is_mm_32_format msg_string \<longleftrightarrow> startswith msg_string (ustr ''mm'') \<and> length msg_string = 34"

text \<open>
  \<^verbatim>\<open>is_missed_message_address\<close> returns a boolean, or \<^verbatim>\<open>None\<close> from its handler; only
  the unrecognised-address error is caught.
\<close>

definition is_missed_message_address :: "settings \<Rightarrow> ustr \<Rightarrow> exn + bool option" where
  "is_missed_message_address cfg address =
     (case get_email_gateway_message_string_from_address cfg address of
        Inr msg_string \<Rightarrow> Inr (Some (is_mm_32_format msg_string))
      | Inl (ZulipEmailUnrecognizedAddressError m) \<Rightarrow> Inr None
      | Inl e \<Rightarrow> Inl e)"

text \<open>The truth test on that result: \<^verbatim>\<open>None\<close> and \<^verbatim>\<open>False\<close> are false.\<close>

fun is_true :: "bool option \<Rightarrow> bool" where
  "is_true None = False"
| "is_true (Some b) = b"

definition get_missed_message_token_from_address :: "settings \<Rightarrow> ustr \<Rightarrow> exn + ustr" where
  "get_missed_message_token_from_address cfg address =
     (case get_email_gateway_message_string_from_address cfg address of
        Inr msg_string \<Rightarrow>
          (if \<not> is_mm_32_format msg_string
           then Inl (ZulipEmailForwardError (ustr ''Could not parse missed message address''))
           else Inr (drop 2 msg_string))
      | Inl (ZulipEmailUnrecognizedAddressError m) \<Rightarrow>
          Inl (ZulipEmailForwardError (ustr ''Address not recognized by gateway.''))
      | Inl e \<Rightarrow> Inl e)"

text \<open>
  \<^verbatim>\<open>hincrby(key, 'uses_left', -1)\<close> creates the hash and the field (at 0) when they are
  missing, and gives the new value; \<^verbatim>\<open>expire\<close> sets the time to live to five days.
\<close>

definition hincrby_uses_left :: "(ustr \<rightharpoonup> redis_hash) \<Rightarrow> ustr \<Rightarrow> int \<Rightarrow> (ustr \<rightharpoonup> redis_hash) \<times> int" where
  "hincrby_uses_left r key d =
     (let h = (case r key of None \<Rightarrow> empty_hash | Some h \<Rightarrow> h);
          v = (case uses_left h of None \<Rightarrow> 0 | Some v \<Rightarrow> v) + d
      in (r(key \<mapsto> h\<lparr>uses_left := Some v\<rparr>), v))"

definition expire :: "(ustr \<rightharpoonup> redis_hash) \<Rightarrow> ustr \<Rightarrow> nat \<Rightarrow> (ustr \<rightharpoonup> redis_hash)" where
  "expire r key secs =
     (case r key of None \<Rightarrow> r | Some h \<Rightarrow> r(key \<mapsto> h\<lparr>ttl := Some secs\<rparr>))"

definition mark_missed_message_address_as_used ::
  "settings \<Rightarrow> world \<Rightarrow> ustr \<Rightarrow> (exn + unit) \<times> world" where
  "mark_missed_message_address_as_used cfg w address =
     (case get_missed_message_token_from_address cfg address of
        Inl e \<Rightarrow> (Inl e, w)
      | Inr token \<Rightarrow>
          (let key = missed_message_redis_key token;
               (r1, new_value) = hincrby_uses_left (redis w) key (- 1);
               r2 = expire r1 key (60 * 60 * 24 * 5)
           in if new_value < 0
              then (Inl (ZulipEmailForwardError
                           (ustr ''Missed message address has already been used'')),
                    w\<lparr>redis := r2(key := None)\<rparr>)
              else (Inr (), w\<lparr>redis := r2\<rparr>)))"

section \<open>Delivery\<close>

definition send_zulip :: "world \<Rightarrow> ustr \<Rightarrow> stream \<Rightarrow> ustr \<Rightarrow> ustr \<Rightarrow> world" where
  "send_zulip w sender strm topic content =
     w\<lparr>outbox := outbox w @
         [GatewayMessage (stream_realm strm) sender (stream_name strm)
            (take 60 topic) (take 2000 content)]\<rparr>"

text \<open>\<^verbatim>\<open>Stream.objects.get(...)\<close>: the one row that fits, or an exception.\<close>

definition objects_get :: "stream list \<Rightarrow> (stream \<Rightarrow> bool) \<Rightarrow> exn + stream" where
  "objects_get rows P =
     (case filter P rows of
        [] \<Rightarrow> Inl DoesNotExist
      | [row] \<Rightarrow> Inr row
      | _ \<Rightarrow> Inl MultipleObjectsReturned)"

definition valid_stream :: "settings \<Rightarrow> world \<Rightarrow> ustr \<Rightarrow> ustr \<Rightarrow> exn + bool" where
  "valid_stream cfg w sname token =
     (case objects_get (streams w) (\<lambda>s. stream_email_token s = token) of
        Inr strm \<Rightarrow> Inr (lower cfg (stream_name strm) = lower cfg sname)
      | Inl DoesNotExist \<Rightarrow> Inr False
      | Inl e \<Rightarrow> Inl e)"

text \<open>
  \<^verbatim>\<open>decode_email_address\<close> never returns \<^verbatim>\<open>None\<close>, so the test \<^verbatim>\<open>temp is None\<close> of the
  source has no branch here.
\<close>

definition extract_and_validate :: "settings \<Rightarrow> world \<Rightarrow> ustr \<Rightarrow> exn + stream" where
  "extract_and_validate cfg w email =
     (case decode_email_address cfg email of
        Inl e \<Rightarrow> Inl e
      | Inr (sname, token) \<Rightarrow>
          (case valid_stream cfg w sname token of
             Inl e \<Rightarrow> Inl e
           | Inr ok \<Rightarrow>
               (if \<not> ok
                then Inl (ZulipEmailForwardError
                            (ustr ''Bad stream token from email recipient '' @ email))
                else objects_get (streams w) (\<lambda>s. stream_email_token s = token))))"

section \<open>Routing\<close>

text \<open>
  The expression \<^verbatim>\<open>".*?".join(pattern_parts)\<close>, matched at the start of a header value;
  the extra pattern plays no part in it. The empty pattern matches every value.
\<close>

definition match_email_re :: "settings \<Rightarrow> ustr \<Rightarrow> bool" where
  "match_email_re cfg s =
     (case EMAIL_GATEWAY_PATTERN cfg of
        NoGateway \<Rightarrow> True
      | Template pre suf \<Rightarrow>
          startswith s pre \<and>
          capture_lazy (\<lambda>rest. startswith rest suf) (drop (length pre) s) \<noteq> None)"

text \<open>The first loop: the values of the first header that has any; then it breaks.\<close>

fun first_recipients :: "settings \<Rightarrow> message \<Rightarrow> ustr list \<Rightarrow> ustr list" where
  "first_recipients cfg msg [] = []"
| "first_recipients cfg msg (recipient_header # hs) =
     (case get_all cfg msg recipient_header of
        [] \<Rightarrow> first_recipients cfg msg hs
      | r # rs \<Rightarrow> r # rs)"

text \<open>The second loop: the first of those values that matches.\<close>

fun first_matching :: "settings \<Rightarrow> ustr list \<Rightarrow> exn + ustr" where
  "first_matching cfg [] =
     Inl (ZulipEmailForwardError (ustr ''Missing recipient in mirror email''))"
| "first_matching cfg (recipient_email # rs) =
     (if match_email_re cfg recipient_email then Inr recipient_email
      else first_matching cfg rs)"

definition recipient_headers :: "ustr list" where
  "recipient_headers = [ustr ''X-Gm-Original-To'', ustr ''Delivered-To'', ustr ''To'']"

definition find_emailgateway_recipient :: "settings \<Rightarrow> message \<Rightarrow> exn + ustr" where
  "find_emailgateway_recipient cfg msg =
     first_matching cfg (first_recipients cfg msg recipient_headers)"

text \<open>
  \<^verbatim>\<open>debug_info\<close> is a dictionary with at most the keys \<^verbatim>\<open>"to"\<close> and \<^verbatim>\<open>"stream"\<close>.
\<close>

record debug_info =
  di_to :: "ustr option"
  di_stream :: "stream option"

definition report_to_zulip ::
  "settings \<Rightarrow> collaborators \<Rightarrow> world \<Rightarrow> ustr \<Rightarrow> (exn + unit) \<times> world" where
  "report_to_zulip cfg ext w error_message =
     (case ERROR_BOT cfg of
        None \<Rightarrow> (Inr (), w)
      | Some bot_name \<Rightarrow>
          (let error_bot = get_system_bot ext bot_name
           in case objects_get (streams w)
                     (\<lambda>s. stream_name s = ustr ''errors'' \<and> stream_realm s = user_realm error_bot) of
                Inl e \<Rightarrow> (Inl e, w)
              | Inr error_stream \<Rightarrow>
                  (Inr (), send_zulip w bot_name error_stream (ustr ''email mirror error'')
                             (ustr ''~~~'' @ [10] @ error_message @ [10] @ ustr ''~~~''))))"

definition log_and_report ::
  "settings \<Rightarrow> collaborators \<Rightarrow> world \<Rightarrow> message \<Rightarrow> ustr \<Rightarrow> debug_info \<Rightarrow> (exn + unit) \<times> world" where
  "log_and_report cfg ext w email_message error_message dbg =
     (let sender = (case get_header cfg email_message (ustr ''From'') of
                      None \<Rightarrow> ustr ''None'' | Some f \<Rightarrow> f);
          scrubbed0 = ustr ''Sender: '' @ sender @ [10] @ redact_stream ext error_message;
          scrubbed1 = (case di_to dbg of
                         None \<Rightarrow> scrubbed0
                       | Some to \<Rightarrow> ustr ''Stream: '' @ redact_stream ext to @ [10] @ scrubbed0);
          scrubbed2 = (case di_stream dbg of
                         None \<Rightarrow> scrubbed1
                       | Some strm \<Rightarrow> ustr ''Realm: '' @ stream_realm strm @ [10] @ scrubbed1)
      in report_to_zulip cfg ext (w\<lparr>error_log := error_log w @ [scrubbed2]\<rparr>) scrubbed2)"

text \<open>\<^verbatim>\<open>", ".join(emails)\<close> is only logged; the three delivery calls go to the outbox.\<close>

definition deliver_reply ::
  "collaborators \<Rightarrow> world \<Rightarrow> user_profile \<Rightarrow> recipient \<Rightarrow> nat list \<Rightarrow> ustr \<Rightarrow> (exn + unit) \<times> world" where
  "deliver_reply ext w user rcp subject_b body =
     (case recipient_kind rcp of
        STREAM \<Rightarrow>
          (case recipient_display rcp of
             DisplayUsers us \<Rightarrow> (Inl AssertionError, w)
           | DisplayName recipient_str \<Rightarrow>
               (case utf8_decode ext subject_b of
                  None \<Rightarrow> (Inl UnicodeDecodeError, w)
                | Some subj \<Rightarrow>
                    (Inr (), w\<lparr>outbox := outbox w @
                       [StreamMessage (user_realm user) (user_email user) recipient_str subj body]\<rparr>)))
      | PERSONAL \<Rightarrow>
          (case recipient_display rcp of
             DisplayName n \<Rightarrow> (Inl AssertionError, w)
           | DisplayUsers [] \<Rightarrow> (Inl IndexError, w)
           | DisplayUsers (recipient_str # us) \<Rightarrow>
               (case get_user ext recipient_str (user_realm user) of
                  Inl e \<Rightarrow> (Inl e, w)
                | Inr recipient_user \<Rightarrow>
                    (Inr (), w\<lparr>outbox := outbox w @
                       [PrivateMessage (user_realm user) (user_email user) recipient_user body]\<rparr>)))
      | HUDDLE \<Rightarrow>
          (case recipient_display rcp of
             DisplayName n \<Rightarrow> (Inl AssertionError, w)
           | DisplayUsers emails \<Rightarrow>
               (Inr (), w\<lparr>outbox := outbox w @
                  [HuddleMessage (user_realm user) (user_email user) emails body]\<rparr>))
      | OTHER_TYPE \<Rightarrow> (Inl AssertionError, w))"

definition send_to_missed_message_address ::
  "settings \<Rightarrow> collaborators \<Rightarrow> world \<Rightarrow> ustr \<Rightarrow> message \<Rightarrow> (exn + unit) \<times> world" where
  "send_to_missed_message_address cfg ext w address msg =
     (case get_missed_message_token_from_address cfg address of
        Inl e \<Rightarrow> (Inl e, w)
      | Inr token \<Rightarrow>
          (let h = (case redis w (missed_message_redis_key token) of
                      None \<Rightarrow> empty_hash | Some h \<Rightarrow> h)
           in case (user_profile_id h, recipient_id h, subject h) of
                (Some uid, Some rid, Some subject_b) \<Rightarrow>
                  (case get_user_profile_by_id ext uid of
                     Inl e \<Rightarrow> (Inl e, w)
                   | Inr user \<Rightarrow>
                       (case get_recipient ext rid of
                          Inl e \<Rightarrow> (Inl e, w)
                        | Inr rcp \<Rightarrow>
                            (case construct_zulip_body cfg ext msg (user_realm user) of
                               Inl e \<Rightarrow> (Inl e, w)
                             | Inr body \<Rightarrow> deliver_reply ext w user rcp subject_b body)))
              | _ \<Rightarrow> (Inl (ZulipEmailForwardError (ustr ''Missing missed message address data'')), w)))"

definition process_stream_message ::
  "settings \<Rightarrow> collaborators \<Rightarrow> world \<Rightarrow> ustr \<Rightarrow> ustr \<Rightarrow> message \<Rightarrow> debug_info
     \<Rightarrow> (exn + unit) \<times> debug_info \<times> world" where
  "process_stream_message cfg ext w to subj msg dbg =
     (case extract_and_validate cfg w to of
        Inl e \<Rightarrow> (Inl e, dbg, w)
      | Inr strm \<Rightarrow>
          (case construct_zulip_body cfg ext msg (stream_realm strm) of
             Inl e \<Rightarrow> (Inl e, dbg, w)
           | Inr body \<Rightarrow>
               (Inr (), dbg\<lparr>di_stream := Some strm\<rparr>,
                send_zulip w (EMAIL_GATEWAY_BOT cfg) strm subj body)))"

definition process_missed_message ::
  "settings \<Rightarrow> collaborators \<Rightarrow> world \<Rightarrow> ustr \<Rightarrow> message \<Rightarrow> bool \<Rightarrow> (exn + unit) \<times> world" where
  "process_missed_message cfg ext w to msg pre_checked =
     (if \<not> pre_checked
      then (case mark_missed_message_address_as_used cfg w to of
              (Inl e, w1) \<Rightarrow> (Inl e, w1)
            | (Inr u, w1) \<Rightarrow> send_to_missed_message_address cfg ext w1 to msg)
      else send_to_missed_message_address cfg ext w to msg)"

text \<open>
  The body of the \<^verbatim>\<open>try\<close> in \<^verbatim>\<open>process_message\<close>, with \<^verbatim>\<open>debug_info\<close> as it stands when
  the body ends or raises.
\<close>

definition process_message_try ::
  "settings \<Rightarrow> collaborators \<Rightarrow> world \<Rightarrow> message \<Rightarrow> ustr \<Rightarrow> ustr option \<Rightarrow> bool
     \<Rightarrow> (exn + unit) \<times> debug_info \<times> world" where
  "process_message_try cfg ext w msg subj rcpt_to pre_checked =
     (let dbg0 = \<lparr> di_to = None, di_stream = None \<rparr>
      in case (case rcpt_to of Some a \<Rightarrow> Inr a | None \<Rightarrow> find_emailgateway_recipient cfg msg) of
           Inl e \<Rightarrow> (Inl e, dbg0, w)
         | Inr to \<Rightarrow>
             (let dbg1 = dbg0\<lparr>di_to := Some to\<rparr>
              in case is_missed_message_address cfg to of
                   Inl e \<Rightarrow> (Inl e, dbg1, w)
                 | Inr mm \<Rightarrow>
                     (if is_true mm
                      then (case process_missed_message cfg ext w to msg pre_checked of
                              (res, w1) \<Rightarrow> (res, dbg1, w1))
                      else process_stream_message cfg ext w to subj msg dbg1)))"

text \<open>
  The handler \<^verbatim>\<open>except ZulipEmailForwardError as e\<close>: that class is logged and
  reported, every other exception leaves \<^verbatim>\<open>process_message\<close>.
\<close>

definition except_forward_error ::
  "settings \<Rightarrow> collaborators \<Rightarrow> message \<Rightarrow> (exn + unit) \<times> debug_info \<times> world \<Rightarrow> (exn + unit) \<times> world" where
  "except_forward_error cfg ext msg outcome =
     (case outcome of
        (Inl (ZulipEmailForwardError e), dbg, w) \<Rightarrow> log_and_report cfg ext w msg e dbg
      | (res, dbg, w) \<Rightarrow> (res, w))"

text \<open>
  \<^verbatim>\<open>force_text\<close> gives a string as it is and decodes bytes as UTF-8; on a string the
  method \<^verbatim>\<open>decode\<close> does not exist.
\<close>

definition force_text :: "collaborators \<Rightarrow> header_chunk \<Rightarrow> exn + ustr" where
  "force_text ext chunk =
     (case chunk of
        StrChunk s \<Rightarrow> Inr s
      | BytesChunk b \<Rightarrow>
          (case utf8_decode ext b of None \<Rightarrow> Inl UnicodeDecodeError | Some s \<Rightarrow> Inr s))"

text \<open>
  The subject, lines 319 to 327 of the source. They stand before the \<^verbatim>\<open>try\<close>: what
  \<^verbatim>\<open>decode_header\<close> or \<^verbatim>\<open>force_text\<close> raises leaves \<^verbatim>\<open>process_message\<close>; only the
  decoding with a declared encoding has a handler of its own.
\<close>

definition message_subject :: "settings \<Rightarrow> collaborators \<Rightarrow> message \<Rightarrow> exn + ustr" where
  "message_subject cfg ext msg =
     (let subject_header = (case get_header cfg msg (ustr ''Subject'') of
                              None \<Rightarrow> ustr ''(no subject)'' | Some h \<Rightarrow> h)
      in case decode_header ext subject_header of
           None \<Rightarrow> Inl HeaderParseError
         | Some (encoded_subject, None) \<Rightarrow> force_text ext encoded_subject
         | Some (StrChunk s, Some encoding) \<Rightarrow> Inl AttributeError
         | Some (BytesChunk b, Some encoding) \<Rightarrow>
             (case bytes_decode_strict ext encoding b of
                None \<Rightarrow> Inr (ustr ''(unreadable subject)'')
              | Some s \<Rightarrow> Inr s))"

definition process_message ::
  "settings \<Rightarrow> collaborators \<Rightarrow> world \<Rightarrow> message \<Rightarrow> ustr option \<Rightarrow> bool \<Rightarrow> (exn + unit) \<times> world" where
  "process_message cfg ext w msg rcpt_to pre_checked =
     (case message_subject cfg ext msg of
        Inl e \<Rightarrow> (Inl e, w)
      | Inr subj \<Rightarrow>
          except_forward_error cfg ext msg
            (process_message_try cfg ext w msg subj rcpt_to pre_checked))"

text \<open>The request handed to \<^verbatim>\<open>mirror_email_message\<close>, and its two answers.\<close>

record mirror_data =
  data_recipient :: ustr
  data_msg_text :: ustr

definition mirror_email_message ::
  "settings \<Rightarrow> world \<Rightarrow> mirror_data \<Rightarrow> (exn + (string \<times> string) list) \<times> world" where
  "mirror_email_message cfg w data =
     (let rcpt_to = data_recipient data;
          publish = (\<lambda>w1. (Inr [(''status'', ''success'')],
                           w1\<lparr>queue := queue w1 @ [(data_msg_text data, rcpt_to)]\<rparr>))
      in case is_missed_message_address cfg rcpt_to of
           Inl e \<Rightarrow> (Inl e, w)
         | Inr mm \<Rightarrow>
             (if is_true mm
              then (case mark_missed_message_address_as_used cfg w rcpt_to of
                      (Inl (ZulipEmailForwardError e), w1) \<Rightarrow>
                        (Inr [(''status'', ''error''),
                              (''msg'', ''5.1.1 Bad destination mailbox address: '' @
                                        ''Bad or expired missed message address.'')], w1)
                    | (Inl e, w1) \<Rightarrow> (Inl e, w1)
                    | (Inr u, w1) \<Rightarrow> publish w1)
              else (case extract_and_validate cfg w rcpt_to of
                      Inl (ZulipEmailForwardError e) \<Rightarrow>
                        (Inr [(''status'', ''error''),
                              (''msg'', ''5.1.1 Bad destination mailbox address: '' @
                                        ''Please use the address specified in your Streams page.'')], w)
                    | Inl e \<Rightarrow> (Inl e, w)
                    | Inr strm \<Rightarrow> publish w)))"

section \<open>The behaviour the specification words\<close>

text \<open>
  Three definitions that follow the words of the specification rather than the source,
  to be compared with the functions above. The specification splits the captured
  local part at its first occurrence of either separator, and fails with a forward
  error when there is none.
\<close>

fun split_first_separator :: "ustr \<Rightarrow> (ustr \<times> ustr) option" where
  "split_first_separator [] = None"
| "split_first_separator (c # cs) =
     (if c = 43 \<or> c = 46 then Some ([], cs)
      else map_option (\<lambda>(a, b). (c # a, b)) (split_first_separator cs))"

definition decode_as_specified :: "settings \<Rightarrow> ustr \<Rightarrow> exn + (ustr \<times> ustr)" where
  "decode_as_specified cfg email =
     (case get_email_gateway_message_string_from_address cfg email of
        Inl e \<Rightarrow> Inl e
      | Inr msg_string \<Rightarrow>
          (case split_first_separator msg_string of
             None \<Rightarrow> Inl (ZulipEmailForwardError (ustr ''Malformed email recipient '' @ email))
           | Some (encoded_stream_name, token) \<Rightarrow>
               Inr (unescape cfg encoded_stream_name, token)))"

text \<open>
  The specification's footer filter: with exactly one line whose trimmed form starts
  with two dashes, everything before that line, trimmed.
\<close>

definition is_footer_line :: "ustr \<Rightarrow> bool" where
  "is_footer_line line = startswith (strip line) (ustr ''--'')"

definition filter_footer_as_specified :: "ustr \<Rightarrow> ustr" where
  "filter_footer_as_specified text =
     (let lines = split_chr 10 text
      in if length (filter is_footer_line lines) = 1
         then strip (join_lines (takeWhile (\<lambda>l. \<not> is_footer_line l) lines))
         else text)"

text \<open>
  The specification's recipient resolution: the first matching value over the values
  of all three headers, in priority order.
\<close>

definition find_recipient_as_specified :: "settings \<Rightarrow> message \<Rightarrow> exn + ustr" where
  "find_recipient_as_specified cfg msg =
     first_matching cfg (concat (map (get_all cfg msg) recipient_headers))"

section \<open>Example deployment\<close>

text \<open>The template \<^verbatim>\<open>%s@example.com\<close>, with stand-ins for the library tables.\<close>

definition ascii_lower :: "nat \<Rightarrow> nat" where
  "ascii_lower c = (if 65 \<le> c \<and> c \<le> 90 then c + 32 else c)"

definition example_settings :: settings where
  "example_settings =
     \<lparr> EMAIL_GATEWAY_PATTERN = Template [] (ustr ''@example.com''),
       EMAIL_GATEWAY_EXTRA_PATTERN_HACK = None,
       EMAIL_GATEWAY_BOT = ustr ''emailgateway@zulip.com'',
       ERROR_BOT = None,
       uni_alnum = (\<lambda>c. False),
       uni_decimal = (\<lambda>c. None),
       lower = map ascii_lower \<rparr>"

definition example_user :: user_profile where
  "example_user = \<lparr> user_email = ustr ''hamlet@zulip.com'', user_realm = ustr ''zulip'' \<rparr>"

definition example_collaborators :: collaborators where
  "example_collaborators =
     \<lparr> bytes_decode = (\<lambda>cs b. Some b),
       utf8_decode = Some,
       extract_from_plain = (\<lambda>s. s),
       extract_from_html = (\<lambda>s. s),
       convert_html_to_markdown = (\<lambda>s. s),
       upload_message_image = (\<lambda>fname n ct b u r. ustr ''/user_uploads/'' @ fname),
       decode_header = (\<lambda>s. Some (StrChunk s, None)),
       bytes_decode_strict = (\<lambda>enc b. Some b),
       redact_stream = (\<lambda>s. s),
       get_user_profile_by_id = (\<lambda>i. Inr example_user),
       get_recipient = (\<lambda>i. Inr \<lparr> recipient_kind = STREAM,
                                  recipient_display = DisplayName (ustr ''general'') \<rparr>),
       get_user = (\<lambda>e r. Inr e),
       get_system_bot = (\<lambda>n. example_user) \<rparr>"

definition mm_token :: ustr where
  "mm_token = ustr ''0123456789abcdef0123456789abcdef''"

definition mm_address :: ustr where
  "mm_address = ustr ''mm0123456789abcdef0123456789abcdef@example.com''"

definition fresh_hash :: redis_hash where
  "fresh_hash = \<lparr> uses_left = Some 1, user_profile_id = Some [55], recipient_id = Some [57],
                  subject = Some [104, 105], ttl = Some 432000 \<rparr>"

definition example_world :: world where
  "example_world =
     \<lparr> redis = [missed_message_redis_key mm_token \<mapsto> fresh_hash],
       streams = [\<lparr> stream_name = ustr ''general'', stream_email_token = ustr ''abc123'',
                    stream_realm = ustr ''zulip'' \<rparr>],
       outbox = [],
       queue = [],
       error_log = [] \<rparr>"

definition plain_part :: "nat list \<Rightarrow> part" where
  "plain_part b = Leaf (ustr ''text/plain'') (Some (ustr ''utf-8'')) None (Some b)"

definition html_part :: "nat list \<Rightarrow> part" where
  "html_part b = Leaf (ustr ''text/html'') (Some (ustr ''utf-8'')) None (Some b)"

text \<open>A message to \<^verbatim>\<open>general@example.com\<close>, an address with no separator.\<close>

definition general_message :: message where
  "general_message =
     \<lparr> headers = [(ustr ''From'', ustr ''alice@example.org''),
                  (ustr ''To'', ustr ''general@example.com'')],
       root = plain_part (ustr ''Hello'') \<rparr>"

text \<open>A forwarded message: the gateway address is in \<^verbatim>\<open>To\<close> only.\<close>

definition forwarded_message :: message where
  "forwarded_message =
     \<lparr> headers = [(ustr ''Delivered-To'', ustr ''alice@other.org''),
                  (ustr ''To'', ustr ''general+abc123@example.com'')],
       root = plain_part (ustr ''Hello'') \<rparr>"

text \<open>A message whose plaintext body is blank.\<close>

definition blank_message :: message where
  "blank_message = \<lparr> headers = [], root = plain_part (ustr ''  '') \<rparr>"

text \<open>A message with an empty plaintext part and an HTML part.\<close>

definition alternative_message :: message where
  "alternative_message =
     \<lparr> headers = [],
       root = Multi (ustr ''multipart/alternative'') None None
                [plain_part [], html_part (ustr ''<p>Hi</p>'')] \<rparr>"

text \<open>A body with two dashes inside a line above the one footer line.\<close>

definition dashed_text :: ustr where
  "dashed_text = ustr ''a--b'' @ [10] @ ustr ''--'' @ [10] @ ustr ''sig''"

section \<open>Reading the token store\<close>

text \<open>
  The count of a key (\<open>None\<close> when the record or the field is absent), the store after
  one call of \<open>mark_missed_message_address_as_used\<close>, and the error of a used address.
\<close>

definition uses_left_at :: "world \<Rightarrow> ustr \<Rightarrow> int option" where
  "uses_left_at w key = (case redis w key of None \<Rightarrow> None | Some h \<Rightarrow> uses_left h)"

definition after_consume :: "settings \<Rightarrow> ustr \<Rightarrow> world \<Rightarrow> world" where
  "after_consume cfg address w = snd (mark_missed_message_address_as_used cfg w address)"

definition already_used :: exn where
  "already_used = ZulipEmailForwardError (ustr ''Missed message address has already been used'')"

text \<open>An address of another domain, which the example template does not match.\<close>

definition foreign_address :: ustr where
  "foreign_address = ustr ''general+abc123@other.org''"

text \<open>The request that carries the example missed-message address.\<close>

definition mm_request :: mirror_data where
  "mm_request = \<lparr> data_recipient = mm_address, data_msg_text = ustr ''Hello'' \<rparr>"

text \<open>An address whose local part has a plus sign before its one dot.\<close>

definition dotted_address :: ustr where
  "dotted_address = ustr ''a+b.c@example.com''"

text \<open>The error of a message with no usable recipient.\<close>

definition missing_recipient :: exn where
  "missing_recipient = ZulipEmailForwardError (ustr ''Missing recipient in mirror email'')"

text \<open>A message with a plaintext part and an HTML part, both with text.\<close>

definition both_message :: message where
  "both_message =
     \<lparr> headers = [],
       root = Multi (ustr ''multipart/alternative'') None None
                [plain_part (ustr ''Hello''), html_part (ustr ''<p>Hi</p>'')] \<rparr>"

text \<open>U+1F600, a symbol: its code point has six decimal digits.\<close>

definition grinning_face :: nat where
  "grinning_face = 128512"

chapter \<open>Properties\<close>

section \<open>The assembled body\<close>

lemma placeholder_nonempty: "ustr ''(No email body)'' \<noteq> []"
  by (simp add: ustr_def)

text \<open>
  C9: the body assembled by \<open>construct_zulip_body\<close> is never the empty string. Whenever
  the function returns, the result is non-empty, and it is what the source computes:
  the extracted body without null characters, footer filtered, followed by the
  attachment links and trimmed, with the placeholder \<^verbatim>\<open>(No email body)\<close> in place of an
  empty result.
\<close>

theorem construct_zulip_body_never_empty:
  "(\<forall>body. construct_zulip_body cfg ext msg realm = Inr body \<longrightarrow> body \<noteq> []) \<and>
   (\<forall>b. extract_body ext msg = Inr b \<longrightarrow>
      construct_zulip_body cfg ext msg realm =
        (let assembled = strip (filter_footer (filter (\<lambda>c. c \<noteq> 0) b) @
                                extract_and_upload_attachments cfg ext msg realm)
         in if assembled = [] then Inr (ustr ''(No email body)'') else Inr assembled))"
proof (intro conjI allI impI)
  fix body
  assume "construct_zulip_body cfg ext msg realm = Inr body"
  then show "body \<noteq> []"
    using placeholder_nonempty
    by (auto simp: construct_zulip_body_def Let_def split: sum.splits if_splits)
next
  fix b
  assume "extract_body ext msg = Inr b"
  then show "construct_zulip_body cfg ext msg realm =
        (let assembled = strip (filter_footer (filter (\<lambda>c. c \<noteq> 0) b) @
                                extract_and_upload_attachments cfg ext msg realm)
         in if assembled = [] then Inr (ustr ''(No email body)'') else Inr assembled)"
    by (simp add: construct_zulip_body_def Let_def)
qed

text \<open>A blank plaintext body is assembled to the placeholder.\<close>

lemma blank_body: "extract_body example_collaborators blank_message = Inr (ustr ''  '')"
  by (simp add: extract_body_def get_message_part_by_type_def blank_message_def plain_part_def
      example_collaborators_def ustr_def)

lemma blank_assembled:
  "strip (filter_footer (filter (\<lambda>c. c \<noteq> 0) (ustr ''  '')) @
          extract_and_upload_attachments example_settings example_collaborators blank_message []) = []"
  by (simp add: strip_def lstrip_def rstrip_def isspace_def filter_footer_def ustr_def
      extract_and_upload_attachments_def blank_message_def plain_part_def Let_def)

theorem construct_zulip_body_never_empty_witness:
  "construct_zulip_body example_settings example_collaborators blank_message [] =
     Inr (ustr ''(No email body)'') \<and> ustr ''(No email body)'' \<noteq> []"
proof -
  note t = construct_zulip_body_never_empty
             [of example_settings example_collaborators blank_message "[]"]
  have r: "construct_zulip_body example_settings example_collaborators blank_message [] =
     Inr (ustr ''(No email body)'')"
    using conjunct2 [OF t, rule_format, OF blank_body] blank_assembled
    by (simp add: Let_def)
  have "ustr ''(No email body)'' \<noteq> []"
    using conjunct1 [OF t, rule_format, OF r] .
  with r show ?thesis by (rule_tac conjI)
qed

section \<open>Single use of a missed-message token\<close>

text \<open>The call, unfolded for an address whose token parses.\<close>

lemma mark_unfolded:
  assumes "get_missed_message_token_from_address cfg address = Inr token"
  shows "mark_missed_message_address_as_used cfg w address =
     (let key = missed_message_redis_key token;
          h = (case redis w key of None \<Rightarrow> empty_hash | Some h \<Rightarrow> h);
          v = (case uses_left h of None \<Rightarrow> 0 | Some v \<Rightarrow> v) - 1
      in if v < 0 then (Inl already_used, w\<lparr>redis := (redis w)(key := None)\<rparr>)
         else (Inr (), w\<lparr>redis := (redis w)(key \<mapsto> h\<lparr>uses_left := Some v, ttl := Some 432000\<rparr>)\<rparr>))"
  using assms
  by (simp add: mark_missed_message_address_as_used_def hincrby_uses_left_def expire_def
      Let_def already_used_def)

lemma mark_spent:
  assumes "get_missed_message_token_from_address cfg address = Inr token"
    and "uses_left_at w (missed_message_redis_key token) \<in> {None, Some 0}"
  shows "fst (mark_missed_message_address_as_used cfg w address) = Inl already_used"
    and "redis (after_consume cfg address w) (missed_message_redis_key token) = None"
  using assms(2)
  by (auto simp: mark_unfolded [OF assms(1)] after_consume_def uses_left_at_def Let_def
      empty_hash_def split: option.splits)

lemma spent_stays_spent:
  assumes "get_missed_message_token_from_address cfg address = Inr token"
    and "uses_left_at w (missed_message_redis_key token) \<in> {None, Some 0}"
  shows "uses_left_at ((after_consume cfg address ^^ n) w) (missed_message_redis_key token)
           \<in> {None, Some 0}"
proof (induction n)
  case 0
  then show ?case using assms(2) by simp
next
  case (Suc n)
  have "redis (after_consume cfg address ((after_consume cfg address ^^ n) w))
          (missed_message_redis_key token) = None"
    by (rule mark_spent(2) [OF assms(1) Suc.IH])
  then show ?case by (simp add: uses_left_at_def)
qed

lemma mark_monotone:
  assumes "uses_left_at w k = Some v"
    and "uses_left_at (after_consume cfg address w) k = Some v'"
  shows "v' \<le> v"
proof (cases "get_missed_message_token_from_address cfg address")
  case (Inl e)
  then have "after_consume cfg address w = w"
    by (simp add: after_consume_def mark_missed_message_address_as_used_def)
  with assms show ?thesis by simp
next
  case (Inr token)
  show ?thesis
    using assms
    by (auto simp: mark_unfolded [OF Inr] after_consume_def uses_left_at_def Let_def
        split: option.splits if_splits)
qed

text \<open>
  C7: for an address that carries a missed-message token, the count \<open>uses_left\<close> of any
  key never grows across a consume; the record is deleted as soon as the decrement
  would make the count negative; a first consume on a fresh token (count 1) succeeds and
  leaves the count at 0; and every later consume, however many came before, fails with
  the error of a used address and leaves no record behind.
\<close>

theorem missed_message_token_single_use:
  assumes "get_missed_message_token_from_address cfg address = Inr token"
  shows "(\<forall>k v v'. uses_left_at w k = Some v \<and>
                    uses_left_at (after_consume cfg address w) k = Some v' \<longrightarrow> v' \<le> v) \<and>
         (\<forall>v. uses_left_at w (missed_message_redis_key token) = Some v \<and> v - 1 < 0 \<longrightarrow>
              redis (after_consume cfg address w) (missed_message_redis_key token) = None) \<and>
         (uses_left_at w (missed_message_redis_key token) = Some 1 \<longrightarrow>
            fst (mark_missed_message_address_as_used cfg w address) = Inr () \<and>
            uses_left_at (after_consume cfg address w) (missed_message_redis_key token) = Some 0 \<and>
            (\<forall>n. let w' = (after_consume cfg address ^^ n) (after_consume cfg address w)
                 in fst (mark_missed_message_address_as_used cfg w' address) = Inl already_used \<and>
                    redis (after_consume cfg address w') (missed_message_redis_key token) = None))"
proof (intro conjI allI impI)
  fix k v v'
  assume "uses_left_at w k = Some v \<and> uses_left_at (after_consume cfg address w) k = Some v'"
  then show "v' \<le> v" using mark_monotone by blast
next
  fix v
  assume "uses_left_at w (missed_message_redis_key token) = Some v \<and> v - 1 < 0"
  then show "redis (after_consume cfg address w) (missed_message_redis_key token) = None"
    by (auto simp: mark_unfolded [OF assms] after_consume_def uses_left_at_def Let_def
        split: option.splits)
next
  assume fresh: "uses_left_at w (missed_message_redis_key token) = Some 1"
  then show "fst (mark_missed_message_address_as_used cfg w address) = Inr ()"
    by (auto simp: mark_unfolded [OF assms] uses_left_at_def Let_def split: option.splits)
  from fresh show zero: "uses_left_at (after_consume cfg address w) (missed_message_redis_key token) = Some 0"
    by (auto simp: mark_unfolded [OF assms] after_consume_def uses_left_at_def Let_def
        split: option.splits)
  fix n
  have spent: "uses_left_at ((after_consume cfg address ^^ n) (after_consume cfg address w))
                 (missed_message_redis_key token) \<in> {None, Some 0}"
    by (rule spent_stays_spent [OF assms]) (simp add: zero)
  show "let w' = (after_consume cfg address ^^ n) (after_consume cfg address w)
        in fst (mark_missed_message_address_as_used cfg w' address) = Inl already_used \<and>
           redis (after_consume cfg address w') (missed_message_redis_key token) = None"
    unfolding Let_def
    using mark_spent [OF assms spent] by blast
qed

text \<open>The example address carries the example token, whose record is fresh.\<close>

lemma mm_address_token: "get_missed_message_token_from_address example_settings mm_address = Inr mm_token"
  by (simp add: get_missed_message_token_from_address_def mm_address_def mm_token_def
      get_email_gateway_message_string_from_address_def example_settings_def trailing_part_def
      is_mm_32_format_def ustr_def)

lemma example_world_fresh: "uses_left_at example_world (missed_message_redis_key mm_token) = Some 1"
  by (simp add: uses_left_at_def example_world_def fresh_hash_def)

theorem missed_message_token_single_use_witness:
  "fst (mark_missed_message_address_as_used example_settings example_world mm_address) = Inr () \<and>
   fst (mark_missed_message_address_as_used example_settings
          (after_consume example_settings mm_address example_world) mm_address) = Inl already_used \<and>
   redis (after_consume example_settings mm_address
            (after_consume example_settings mm_address example_world))
     (missed_message_redis_key mm_token) = None"
proof -
  note t = missed_message_token_single_use [OF mm_address_token, of example_world]
  note fresh = conjunct2 [OF conjunct2 [OF t], rule_format, OF example_world_fresh]
  have first: "fst (mark_missed_message_address_as_used example_settings example_world mm_address) = Inr ()"
    using fresh by (rule conjunct1)
  have later: "\<forall>n. let w' = (after_consume example_settings mm_address ^^ n)
                              (after_consume example_settings mm_address example_world)
                   in fst (mark_missed_message_address_as_used example_settings w' mm_address) = Inl already_used \<and>
                      redis (after_consume example_settings mm_address w') (missed_message_redis_key mm_token) = None"
    using fresh by blast
  from later [rule_format, of 0] first show ?thesis by (simp add: Let_def)
qed

section \<open>Classification of an unrecognised address\<close>

text \<open>With a template configured, the segment lookup returns or raises the one error.\<close>

lemma template_outcomes:
  assumes "EMAIL_GATEWAY_PATTERN cfg = Template pre suf"
  shows "(\<exists>s. get_email_gateway_message_string_from_address cfg address = Inr s) \<or>
         get_email_gateway_message_string_from_address cfg address =
           Inl (ZulipEmailUnrecognizedAddressError (ustr ''No matching address found''))"
  using assms
  by (simp add: get_email_gateway_message_string_from_address_def split: option.splits)

text \<open>
  C10: with a gateway template configured, \<open>is_missed_message_address\<close> never raises;
  for an address the template does not match it returns \<^verbatim>\<open>None\<close> (not \<^verbatim>\<open>False\<close>), and
  the dispatch of \<open>process_message\<close>, whether the address was supplied or found in the
  headers, runs the stream flow on it: the body of the \<^verbatim>\<open>try\<close> is the stream flow for
  every subject, and \<open>process_message\<close> is the handler around the stream flow whenever
  the subject header decodes; when it does not, the exception leaves before the address
  is looked at.
\<close>

theorem is_missed_message_address_never_raises:
  assumes "EMAIL_GATEWAY_PATTERN cfg = Template pre suf"
  shows "(\<exists>v. is_missed_message_address cfg address = Inr v) \<and>
         ((\<forall>s. get_email_gateway_message_string_from_address cfg address \<noteq> Inr s) \<longrightarrow>
            is_missed_message_address cfg address = Inr None \<and>
            (\<forall>rcpt_to. (case rcpt_to of Some a \<Rightarrow> Inr a
                         | None \<Rightarrow> find_emailgateway_recipient cfg msg) = Inr address \<longrightarrow>
               (\<forall>subj. process_message_try cfg ext w msg subj rcpt_to pre_checked =
                         process_stream_message cfg ext w address subj msg
                           \<lparr> di_to = Some address, di_stream = None \<rparr>) \<and>
               process_message cfg ext w msg rcpt_to pre_checked =
                 (case message_subject cfg ext msg of
                    Inl e \<Rightarrow> (Inl e, w)
                  | Inr subj \<Rightarrow>
                      except_forward_error cfg ext msg
                        (process_stream_message cfg ext w address subj msg
                           \<lparr> di_to = Some address, di_stream = None \<rparr>))))"
proof (intro conjI impI allI)
  show "\<exists>v. is_missed_message_address cfg address = Inr v"
    using template_outcomes [OF assms, of address]
    by (auto simp: is_missed_message_address_def)
next
  assume no_match: "\<forall>s. get_email_gateway_message_string_from_address cfg address \<noteq> Inr s"
  with template_outcomes [OF assms, of address]
  show none: "is_missed_message_address cfg address = Inr None"
    by (auto simp: is_missed_message_address_def)
  fix rcpt_to
  assume to: "(case rcpt_to of Some a \<Rightarrow> Inr a | None \<Rightarrow> find_emailgateway_recipient cfg msg) = Inr address"
  then have body: "process_message_try cfg ext w msg subj rcpt_to pre_checked =
                     process_stream_message cfg ext w address subj msg
                       \<lparr> di_to = Some address, di_stream = None \<rparr>" for subj
    by (simp add: process_message_try_def none Let_def)
  show "process_message_try cfg ext w msg subj rcpt_to pre_checked =
          process_stream_message cfg ext w address subj msg
            \<lparr> di_to = Some address, di_stream = None \<rparr>" for subj
    by (rule body)
  show "process_message cfg ext w msg rcpt_to pre_checked =
          (case message_subject cfg ext msg of
             Inl e \<Rightarrow> (Inl e, w)
           | Inr subj \<Rightarrow>
               except_forward_error cfg ext msg
                 (process_stream_message cfg ext w address subj msg
                    \<lparr> di_to = Some address, di_stream = None \<rparr>))"
    by (simp add: process_message_def body split: sum.splits)
qed

lemma foreign_unrecognized:
  "get_email_gateway_message_string_from_address example_settings foreign_address =
     Inl (ZulipEmailUnrecognizedAddressError (ustr ''No matching address found''))"
  by (simp add: get_email_gateway_message_string_from_address_def example_settings_def
      foreign_address_def trailing_part_def ustr_def)

lemma example_template: "EMAIL_GATEWAY_PATTERN example_settings = Template [] (ustr ''@example.com'')"
  by (simp add: example_settings_def)

lemma general_subject:
  "message_subject example_settings example_collaborators general_message =
     Inr (ustr ''(no subject)'')"
  by (simp add: message_subject_def get_header_def get_all_def general_message_def
      example_settings_def example_collaborators_def force_text_def ascii_lower_def Let_def)
     (simp add: ustr_def)

theorem is_missed_message_address_never_raises_witness:
  "is_missed_message_address example_settings foreign_address = Inr None \<and>
   process_message example_settings example_collaborators example_world general_message
       (Some foreign_address) False =
     except_forward_error example_settings example_collaborators general_message
       (process_stream_message example_settings example_collaborators example_world foreign_address
          (ustr ''(no subject)'') general_message
          \<lparr> di_to = Some foreign_address, di_stream = None \<rparr>)"
proof -
  note t = is_missed_message_address_never_raises [OF example_template,
             of foreign_address general_message example_collaborators example_world False]
  have no_match: "\<forall>s. get_email_gateway_message_string_from_address example_settings foreign_address \<noteq> Inr s"
    by (simp add: foreign_unrecognized)
  note u = mp [OF conjunct2 [OF t] no_match]
  have "(case Some foreign_address of Some a \<Rightarrow> Inr a
         | None \<Rightarrow> find_emailgateway_recipient example_settings general_message) = Inr foreign_address"
    by simp
  from conjunct2 [OF conjunct2 [OF u, rule_format, OF this]]
  have "process_message example_settings example_collaborators example_world general_message
       (Some foreign_address) False =
     except_forward_error example_settings example_collaborators general_message
       (process_stream_message example_settings example_collaborators example_world foreign_address
          (ustr ''(no subject)'') general_message
          \<lparr> di_to = Some foreign_address, di_stream = None \<rparr>)"
    by (simp add: general_subject)
  with conjunct1 [OF u] show ?thesis by (rule_tac conjI)
qed

section \<open>Exceptions that leave process_message\<close>

lemma foreign_stream_flow:
  "process_stream_message example_settings ext w foreign_address subj msg dbg =
     (Inl (ZulipEmailUnrecognizedAddressError (ustr ''No matching address found'')), dbg, w)"
  by (simp add: process_stream_message_def extract_and_validate_def decode_email_address_def
      foreign_unrecognized)

lemma general_found:
  "find_emailgateway_recipient example_settings general_message = Inr (ustr ''general@example.com'')"
  by (simp add: find_emailgateway_recipient_def recipient_headers_def get_all_def general_message_def
      example_settings_def match_email_re_def ascii_lower_def ustr_def)

lemma general_segment:
  "get_email_gateway_message_string_from_address example_settings (ustr ''general@example.com'') =
     Inr (ustr ''general'')"
  by (simp add: get_email_gateway_message_string_from_address_def example_settings_def
      trailing_part_def ustr_def)

lemma general_not_missed:
  "is_missed_message_address example_settings (ustr ''general@example.com'') = Inr (Some False)"
  by (simp add: is_missed_message_address_def general_segment)
     (simp add: is_mm_32_format_def ustr_def)

lemma general_decode:
  "decode_email_address example_settings (ustr ''general@example.com'') = Inl ValueError"
  by (simp add: decode_email_address_def general_segment) (simp add: ustr_def)

text \<open>
  C2: the claim is that no exception leaves \<open>process_message\<close>. On the code two do. A
  message whose \<^verbatim>\<open>To\<close> header is \<^verbatim>\<open>general@example.com\<close> (no separator in the local
  part) makes \<open>decode_email_address\<close> raise ValueError, and a supplied address of
  another domain makes it raise the unrecognised-address error; the handler catches
  \<open>ZulipEmailForwardError\<close> only, so both leave \<open>process_message\<close>, with nothing logged
  or reported.
\<close>

theorem process_message_lets_exceptions_escape:
  "process_message example_settings example_collaborators example_world general_message None False =
     (Inl ValueError, example_world) \<and>
   process_message example_settings example_collaborators example_world general_message
       (Some foreign_address) False =
     (Inl (ZulipEmailUnrecognizedAddressError (ustr ''No matching address found'')), example_world)"
proof
  show "process_message example_settings example_collaborators example_world general_message None False =
     (Inl ValueError, example_world)"
    by (simp add: process_message_def general_subject process_message_try_def general_found
        general_not_missed process_stream_message_def extract_and_validate_def general_decode
        except_forward_error_def Let_def)
  have "is_missed_message_address example_settings foreign_address = Inr None"
    by (simp add: is_missed_message_address_def foreign_unrecognized)
  then show "process_message example_settings example_collaborators example_world general_message
       (Some foreign_address) False =
     (Inl (ZulipEmailUnrecognizedAddressError (ustr ''No matching address found'')), example_world)"
    by (simp add: process_message_def general_subject process_message_try_def foreign_stream_flow
        except_forward_error_def Let_def)
qed

text \<open>
  The subject is decoded before the \<^verbatim>\<open>try\<close>: a header that \<^verbatim>\<open>decode_header\<close> refuses
  makes \<open>process_message\<close> raise at once, before any address is looked at.
\<close>

lemma process_message_header_error:
  assumes "get_header cfg msg (ustr ''Subject'') = Some h"
    and "decode_header ext h = None"
  shows "process_message cfg ext w msg rcpt_to pre_checked = (Inl HeaderParseError, w)"
  using assms
  by (simp add: process_message_def message_subject_def Let_def)

section \<open>The synchronous phase\<close>

text \<open>A consume touches the token store only.\<close>

lemma mark_frame:
  "streams (snd (mark_missed_message_address_as_used cfg w a)) = streams w \<and>
   outbox (snd (mark_missed_message_address_as_used cfg w a)) = outbox w \<and>
   queue (snd (mark_missed_message_address_as_used cfg w a)) = queue w \<and>
   error_log (snd (mark_missed_message_address_as_used cfg w a)) = error_log w"
  by (simp add: mark_missed_message_address_as_used_def Let_def split: sum.splits prod.splits)

lemma mm_address_is_missed:
  "is_missed_message_address example_settings mm_address = Inr (Some True)"
  by (simp add: is_missed_message_address_def mm_address_def
      get_email_gateway_message_string_from_address_def example_settings_def trailing_part_def
      is_mm_32_format_def ustr_def)

lemma mm_first_consume:
  "mark_missed_message_address_as_used example_settings example_world mm_address =
     (Inr (), after_consume example_settings mm_address example_world)"
proof -
  have "fst (mark_missed_message_address_as_used example_settings example_world mm_address) = Inr ()"
    using example_world_fresh
    by (simp add: mark_unfolded [OF mm_address_token] uses_left_at_def Let_def split: option.splits)
  then show ?thesis
    by (simp add: after_consume_def prod_eq_iff)
qed

lemma mm_after_first:
  "uses_left_at (after_consume example_settings mm_address example_world)
     (missed_message_redis_key mm_token) = Some 0"
  using example_world_fresh
  by (simp add: after_consume_def mark_unfolded [OF mm_address_token] uses_left_at_def Let_def
      split: option.splits)

text \<open>
  C3, as claimed, fails: the synchronous phase is said never to consume a
  missed-message token, but on the fresh example token \<open>mirror_email_message\<close> takes the
  count from 1 to 0.
\<close>

theorem mirror_email_message_consumes_token:
  "uses_left_at example_world (missed_message_redis_key mm_token) = Some 1 \<and>
   uses_left_at (snd (mirror_email_message example_settings example_world mm_request))
     (missed_message_redis_key mm_token) = Some 0"
proof
  show "uses_left_at example_world (missed_message_redis_key mm_token) = Some 1"
    by (rule example_world_fresh)
  have "redis (snd (mirror_email_message example_settings example_world mm_request)) =
        redis (after_consume example_settings mm_address example_world)"
    by (simp add: mirror_email_message_def mm_request_def mm_address_is_missed mm_first_consume Let_def)
  then show "uses_left_at (snd (mirror_email_message example_settings example_world mm_request))
     (missed_message_redis_key mm_token) = Some 0"
    using mm_after_first by (simp add: uses_left_at_def)
qed

text \<open>
  C3, amended: \<open>mirror_email_message\<close> sends nothing, logs nothing and changes no
  stream; it leaves the token store as it was for every recipient that is not a
  missed-message address, and for a missed-message address the store is the one a
  consume leaves; the queue grows by the request exactly when the answer is success.
\<close>

theorem mirror_email_message_effects:
  "redis (snd (mirror_email_message cfg w d)) =
     (if is_missed_message_address cfg (data_recipient d) = Inr (Some True)
      then redis (after_consume cfg (data_recipient d) w) else redis w) \<and>
   streams (snd (mirror_email_message cfg w d)) = streams w \<and>
   outbox (snd (mirror_email_message cfg w d)) = outbox w \<and>
   error_log (snd (mirror_email_message cfg w d)) = error_log w \<and>
   queue (snd (mirror_email_message cfg w d)) =
     (if fst (mirror_email_message cfg w d) = Inr [(''status'', ''success'')]
      then queue w @ [(data_msg_text d, data_recipient d)] else queue w)"
proof (cases "is_missed_message_address cfg (data_recipient d)")
  case (Inl e)
  then show ?thesis by (simp add: mirror_email_message_def Let_def)
next
  case (Inr mm)
  show ?thesis
  proof (cases "is_true mm")
    case False
    then have "mm \<noteq> Some True" by auto
    with Inr False show ?thesis
      by (simp add: mirror_email_message_def Let_def split: sum.splits exn.splits)
  next
    case True
    then have mm: "mm = Some True" by (cases mm) auto
    obtain res w1 where m: "mark_missed_message_address_as_used cfg w (data_recipient d) = (res, w1)"
      by (cases "mark_missed_message_address_as_used cfg w (data_recipient d)")
    have w1: "w1 = after_consume cfg (data_recipient d) w"
      by (simp add: after_consume_def m)
    have frame: "streams w1 = streams w \<and> outbox w1 = outbox w \<and> queue w1 = queue w \<and>
                 error_log w1 = error_log w"
      using mark_frame [of cfg w "data_recipient d"] by (simp add: m)
    show ?thesis
      using frame
      by (simp add: mirror_email_message_def Let_def Inr mm m w1 [symmetric]
          split: sum.splits exn.splits)
  qed
qed

section \<open>Where decode splits\<close>

text \<open>Splitting at a separator that occurs never, or once.\<close>

lemma split_chr_absent: "sep \<notin> set s \<Longrightarrow> split_chr sep s = [s]"
  by (induction s) auto

lemma split_chr_once:
  "count_list s sep = 1 \<Longrightarrow>
   split_chr sep s = [takeWhile (\<lambda>c. c \<noteq> sep) s, tl (dropWhile (\<lambda>c. c \<noteq> sep) s)]"
proof (induction s)
  case Nil
  then show ?case by simp
next
  case (Cons c cs)
  show ?case
  proof (cases "c = sep")
    case True
    with Cons.prems have "count_list cs sep = 0" by simp
    then have "sep \<notin> set cs" by (simp add: count_list_0_iff)
    with True show ?thesis by (simp add: split_chr_absent)
  next
    case False
    with Cons.prems have "count_list cs sep = 1" by simp
    with Cons.IH False show ?thesis by simp
  qed
qed

text \<open>
  C4, amended: for an address whose local part was captured, a segment with exactly one
  dot is split at that dot, whether or not a plus sign comes before it, and a segment
  with no dot and exactly one plus sign is split at that plus sign; the part before
  the separator is percent-decoded, the part after it is the token.
\<close>

theorem decode_email_address_split:
  assumes "get_email_gateway_message_string_from_address cfg email = Inr seg"
  shows "(count_list seg 46 = 1 \<longrightarrow>
            decode_email_address cfg email =
              Inr (unescape cfg (takeWhile (\<lambda>c. c \<noteq> 46) seg), tl (dropWhile (\<lambda>c. c \<noteq> 46) seg))) \<and>
         (46 \<notin> set seg \<and> count_list seg 43 = 1 \<longrightarrow>
            decode_email_address cfg email =
              Inr (unescape cfg (takeWhile (\<lambda>c. c \<noteq> 43) seg), tl (dropWhile (\<lambda>c. c \<noteq> 43) seg)))"
proof (intro conjI impI)
  assume one: "count_list seg 46 = 1"
  then have "46 \<in> set seg" using count_list_0_iff [of seg 46] by auto
  then show "decode_email_address cfg email =
              Inr (unescape cfg (takeWhile (\<lambda>c. c \<noteq> 46) seg), tl (dropWhile (\<lambda>c. c \<noteq> 46) seg))"
    by (simp add: decode_email_address_def assms split_chr_once [OF one])
next
  assume "46 \<notin> set seg \<and> count_list seg 43 = 1"
  then show "decode_email_address cfg email =
              Inr (unescape cfg (takeWhile (\<lambda>c. c \<noteq> 43) seg), tl (dropWhile (\<lambda>c. c \<noteq> 43) seg))"
    by (simp add: decode_email_address_def assms split_chr_once)
qed

lemma dotted_segment:
  "get_email_gateway_message_string_from_address example_settings dotted_address = Inr (ustr ''a+b.c'')"
  by (simp add: get_email_gateway_message_string_from_address_def example_settings_def
      trailing_part_def dotted_address_def ustr_def)

lemma dotted_count: "count_list (ustr ''a+b.c'') 46 = 1"
  by (simp add: ustr_def)

lemma dotted_pieces:
  "unescape example_settings (takeWhile (\<lambda>c. c \<noteq> 46) (ustr ''a+b.c'')) = ustr ''a+b'' \<and>
   tl (dropWhile (\<lambda>c. c \<noteq> 46) (ustr ''a+b.c'')) = ustr ''c''"
  by (simp add: ustr_def)

theorem decode_email_address_split_witness:
  "decode_email_address example_settings dotted_address = Inr (ustr ''a+b'', ustr ''c'')"
  using conjunct1 [OF decode_email_address_split [OF dotted_segment], rule_format, OF dotted_count]
  by (simp only: dotted_pieces)

text \<open>
  C4, as claimed, fails: the split is said to be at the first occurrence of either
  separator. For the local part \<^verbatim>\<open>a+b.c\<close> that is the plus sign, which gives the name
  \<^verbatim>\<open>a\<close>; the source splits at the dot and gives the name \<^verbatim>\<open>a+b\<close>.
\<close>

theorem decode_email_address_not_first_separator:
  "decode_email_address example_settings dotted_address = Inr (ustr ''a+b'', ustr ''c'') \<and>
   decode_as_specified example_settings dotted_address = Inr (ustr ''a'', ustr ''b.c'') \<and>
   ustr ''a+b'' \<noteq> ustr ''a''"
proof (intro conjI)
  show "decode_email_address example_settings dotted_address = Inr (ustr ''a+b'', ustr ''c'')"
    by (simp add: decode_email_address_def dotted_segment) (simp add: ustr_def)
  show "decode_as_specified example_settings dotted_address = Inr (ustr ''a'', ustr ''b.c'')"
    by (simp add: decode_as_specified_def dotted_segment) (simp add: ustr_def)
  show "ustr ''a+b'' \<noteq> ustr ''a''"
    by (simp add: ustr_def)
qed

section \<open>The footer filter\<close>

text \<open>With no footer line, or several, the text is returned as it is.\<close>

lemma filter_footer_unchanged:
  "length (filter is_footer_line (split_chr 10 text)) \<noteq> 1 \<Longrightarrow> filter_footer text = text"
proof -
  assume many: "length (filter is_footer_line (split_chr 10 text)) \<noteq> 1"
  have "(\<lambda>line. startswith (strip line) (ustr ''--'')) = is_footer_line"
    by (simp add: fun_eq_iff is_footer_line_def)
  with many show ?thesis
    by (simp add: filter_footer_def Let_def del: One_nat_def)
qed

lemma dashed_lines:
  "split_chr 10 dashed_text = [ustr ''a--b'', ustr ''--'', ustr ''sig'']"
  by (simp add: dashed_text_def ustr_def)

lemma dashed_footer_lines:
  "\<not> is_footer_line (ustr ''a--b'') \<and> is_footer_line (ustr ''--'') \<and> \<not> is_footer_line (ustr ''sig'')"
  by (simp add: is_footer_line_def strip_def lstrip_def rstrip_def isspace_def ustr_def)

lemma dashed_head: "partition_head (ustr ''--'') dashed_text = ustr ''a''"
  by (simp add: dashed_text_def ustr_def)

lemma strip_a: "strip (ustr ''a'') = ustr ''a''"
  by (simp add: strip_def lstrip_def rstrip_def isspace_def ustr_def)

lemma strip_a_b: "strip (ustr ''a--b'') = ustr ''a--b''"
  by (simp add: strip_def lstrip_def rstrip_def isspace_def ustr_def)

text \<open>
  C5: with exactly one footer line the filter should return what is before that line.
  The text \<^verbatim>\<open>a--b\<close>, \<^verbatim>\<open>--\<close>, \<^verbatim>\<open>sig\<close> (three lines) has one footer line, the second, so
  the result should be \<^verbatim>\<open>a--b\<close>; the source cuts at the first two dashes anywhere in
  the text and returns \<^verbatim>\<open>a\<close>.
\<close>

theorem filter_footer_cuts_at_first_dashes:
  "length (filter is_footer_line (split_chr 10 dashed_text)) = 1 \<and>
   filter_footer dashed_text = ustr ''a'' \<and>
   filter_footer_as_specified dashed_text = ustr ''a--b'' \<and>
   ustr ''a'' \<noteq> ustr ''a--b''"
proof (intro conjI)
  show one: "length (filter is_footer_line (split_chr 10 dashed_text)) = 1"
    by (simp add: dashed_lines dashed_footer_lines)
  have "(\<lambda>line. startswith (strip line) (ustr ''--'')) = is_footer_line"
    by (simp add: fun_eq_iff is_footer_line_def)
  then show "filter_footer dashed_text = ustr ''a''"
    using one by (simp add: filter_footer_def Let_def dashed_head strip_a del: One_nat_def)
  show "filter_footer_as_specified dashed_text = ustr ''a--b''"
    using one
    by (simp add: filter_footer_as_specified_def Let_def dashed_lines dashed_footer_lines strip_a_b
        del: One_nat_def)
  show "ustr ''a'' \<noteq> ustr ''a--b''"
    by (simp add: ustr_def)
qed

section \<open>Recipient resolution\<close>

text \<open>The two loops in closed form.\<close>

lemma first_matching_filter:
  "first_matching cfg rs =
     (case filter (match_email_re cfg) rs of [] \<Rightarrow> Inl missing_recipient | r # rest \<Rightarrow> Inr r)"
  by (induction rs) (simp_all add: missing_recipient_def)

lemma first_recipients_three:
  "first_recipients cfg msg [h1, h2, h3] =
     (if get_all cfg msg h1 \<noteq> [] then get_all cfg msg h1
      else if get_all cfg msg h2 \<noteq> [] then get_all cfg msg h2
      else get_all cfg msg h3)"
  by (simp split: list.splits)

text \<open>
  C6, amended: with no explicit target address, recipient resolution takes the values
  of one header only, the first of \<^verbatim>\<open>X-Gm-Original-To\<close>, \<^verbatim>\<open>Delivered-To\<close>, \<^verbatim>\<open>To\<close> that is
  present, and returns the first of those values that matches the address pattern; it
  fails with the missing-recipient error when none of them matches.
\<close>

theorem find_emailgateway_recipient_one_header:
  "find_emailgateway_recipient cfg msg =
     (let originals = get_all cfg msg (ustr ''X-Gm-Original-To'');
          delivered = get_all cfg msg (ustr ''Delivered-To'');
          primary = get_all cfg msg (ustr ''To'');
          recipients = (if originals \<noteq> [] then originals
                        else if delivered \<noteq> [] then delivered else primary)
      in case filter (match_email_re cfg) recipients of
           [] \<Rightarrow> Inl missing_recipient
         | r # rest \<Rightarrow> Inr r)"
  unfolding find_emailgateway_recipient_def recipient_headers_def first_matching_filter
    first_recipients_three Let_def
  by (rule refl)

lemma forwarded_headers:
  "get_all example_settings forwarded_message (ustr ''X-Gm-Original-To'') = [] \<and>
   get_all example_settings forwarded_message (ustr ''Delivered-To'') = [ustr ''alice@other.org''] \<and>
   get_all example_settings forwarded_message (ustr ''To'') = [ustr ''general+abc123@example.com'']"
  by (simp add: get_all_def forwarded_message_def example_settings_def ascii_lower_def ustr_def)

lemma forwarded_matches:
  "\<not> match_email_re example_settings (ustr ''alice@other.org'') \<and>
   match_email_re example_settings (ustr ''general+abc123@example.com'')"
  by (simp add: match_email_re_def example_settings_def ustr_def)

text \<open>
  C6, as claimed, fails: the first matching value across all three headers is said to be
  returned. A message with \<^verbatim>\<open>Delivered-To: alice@other.org\<close> and
  \<^verbatim>\<open>To: general+abc123@example.com\<close> has a matching value, in \<^verbatim>\<open>To\<close>; the source stops
  at \<^verbatim>\<open>Delivered-To\<close> and fails.
\<close>

theorem find_emailgateway_recipient_skips_lower_headers:
  "find_emailgateway_recipient example_settings forwarded_message = Inl missing_recipient \<and>
   find_recipient_as_specified example_settings forwarded_message =
     Inr (ustr ''general+abc123@example.com'')"
proof
  show "find_emailgateway_recipient example_settings forwarded_message = Inl missing_recipient"
    by (simp add: find_emailgateway_recipient_def recipient_headers_def forwarded_headers
        forwarded_matches missing_recipient_def)
  show "find_recipient_as_specified example_settings forwarded_message =
     Inr (ustr ''general+abc123@example.com'')"
    by (simp add: find_recipient_as_specified_def recipient_headers_def forwarded_headers
        forwarded_matches)
qed

lemma general_headers:
  "get_all example_settings general_message (ustr ''X-Gm-Original-To'') = [] \<and>
   get_all example_settings general_message (ustr ''Delivered-To'') = [] \<and>
   get_all example_settings general_message (ustr ''To'') = [ustr ''general@example.com'']"
  by (simp add: get_all_def general_message_def example_settings_def ascii_lower_def ustr_def)

lemma general_matches: "match_email_re example_settings (ustr ''general@example.com'')"
  by (simp add: match_email_re_def example_settings_def ustr_def)

theorem find_emailgateway_recipient_one_header_witness:
  "find_emailgateway_recipient example_settings general_message = Inr (ustr ''general@example.com'')"
  using find_emailgateway_recipient_one_header [of example_settings general_message]
  by (simp add: general_headers general_matches Let_def)

section \<open>Plaintext before HTML\<close>

text \<open>Parts of another content type are passed over.\<close>

lemma part_by_type_loop_skip:
  "\<forall>q \<in> set before. get_content_type q \<noteq> content_type \<Longrightarrow>
   part_by_type_loop ext content_type (before @ rest) = part_by_type_loop ext content_type rest"
  by (induction before) simp_all

text \<open>
  C8, amended: when the first plaintext part of the walk declares a charset and decodes
  with it to a text that is not empty, \<open>extract_body\<close> returns that text with the
  quotations stripped, whatever other parts the message has, an HTML part included.
\<close>

theorem extract_body_prefers_plaintext:
  assumes "walk (root msg) = before @ Leaf (ustr ''text/plain'') (Some cs) fname (Some content) # rest"
    and "\<forall>q \<in> set before. get_content_type q \<noteq> ustr ''text/plain''"
    and "cs \<noteq> []"
    and "bytes_decode ext cs content = Some text"
    and "text \<noteq> []"
  shows "extract_body ext msg = Inr (extract_from_plain ext text)"
proof -
  have "get_message_part_by_type ext msg (ustr ''text/plain'') = Inr (Some text)"
    using assms(3,4)
    by (simp add: get_message_part_by_type_def assms(1) part_by_type_loop_skip [OF assms(2)])
  with assms(5) show ?thesis
    by (simp add: extract_body_def)
qed

lemma both_walk:
  "walk (root both_message) =
     [Multi (ustr ''multipart/alternative'') None None
        [plain_part (ustr ''Hello''), html_part (ustr ''<p>Hi</p>'')]] @
     Leaf (ustr ''text/plain'') (Some (ustr ''utf-8'')) None (Some (ustr ''Hello'')) #
     [html_part (ustr ''<p>Hi</p>'')]"
  by (simp add: both_message_def plain_part_def html_part_def)

lemma multipart_not_plain: "ustr ''multipart/alternative'' \<noteq> ustr ''text/plain''"
  by (simp add: ustr_def)

theorem extract_body_prefers_plaintext_witness:
  "extract_body example_collaborators both_message =
     Inr (extract_from_plain example_collaborators (ustr ''Hello''))"
proof (rule extract_body_prefers_plaintext [OF both_walk])
  show "\<forall>q \<in> set [Multi (ustr ''multipart/alternative'') None None
                      [plain_part (ustr ''Hello''), html_part (ustr ''<p>Hi</p>'')]].
          get_content_type q \<noteq> ustr ''text/plain''"
    by (simp add: multipart_not_plain)
  show "ustr ''utf-8'' \<noteq> []" by (simp add: ustr_def)
  show "bytes_decode example_collaborators (ustr ''utf-8'') (ustr ''Hello'') = Some (ustr ''Hello'')"
    by (simp add: example_collaborators_def)
  show "ustr ''Hello'' \<noteq> []" by (simp add: ustr_def)
qed

lemma alternative_plain:
  "get_message_part_by_type example_collaborators alternative_message (ustr ''text/plain'') =
     Inr (Some [])"
  by (simp add: get_message_part_by_type_def alternative_message_def plain_part_def html_part_def
      example_collaborators_def multipart_not_plain) (simp add: ustr_def)

lemma alternative_html:
  "get_message_part_by_type example_collaborators alternative_message (ustr ''text/html'') =
     Inr (Some (ustr ''<p>Hi</p>''))"
  by (simp add: get_message_part_by_type_def alternative_message_def plain_part_def html_part_def
      example_collaborators_def) (simp add: ustr_def)

text \<open>
  C8, as claimed, fails: with both a plaintext and an HTML part the HTML part is said
  never to be used. In the example the plaintext part is there, with a charset, and
  decodes to the empty text; \<open>extract_body\<close> returns the converted HTML part.
\<close>

theorem extract_body_falls_back_on_empty_plaintext:
  "get_message_part_by_type example_collaborators alternative_message (ustr ''text/plain'') =
     Inr (Some []) \<and>
   extract_body example_collaborators alternative_message =
     Inr (convert_html_to_markdown example_collaborators
            (extract_from_html example_collaborators (ustr ''<p>Hi</p>'')))"
proof
  show "get_message_part_by_type example_collaborators alternative_message (ustr ''text/plain'') =
     Inr (Some [])"
    by (rule alternative_plain)
  have "ustr ''<p>Hi</p>'' \<noteq> []" by (simp add: ustr_def)
  then show "extract_body example_collaborators alternative_message =
     Inr (convert_html_to_markdown example_collaborators
            (extract_from_html example_collaborators (ustr ''<p>Hi</p>'')))"
    by (simp add: extract_body_def alternative_plain alternative_html)
qed

section \<open>The address round trip\<close>

text \<open>The escape of a code point below 10000 is its four decimal digits.\<close>

lemma replicate_few:
  "replicate 3 (x::nat) = [x, x, x]" "replicate 2 x = [x, x]" "replicate 1 x = [x]"
  by (simp_all add: numeral_3_eq_3 numeral_2_eq_2)

lemma zfill_cases:
  "zfill 4 [a] = [48, 48, 48, a]" "zfill 4 [a, b] = [48, 48, a, b]"
  "zfill 4 [a, b, c] = [48, a, b, c]" "zfill 4 [a, b, c, d] = [a, b, c, d]"
  by (simp_all add: zfill_def replicate_few)

lemma str_nat_digits:
  assumes "c < 10000"
  shows "zfill 4 (str_nat c) =
           [48 + c div 1000, 48 + c div 100 mod 10, 48 + c div 10 mod 10, 48 + c mod 10]"
proof -
  consider "c < 10" | "10 \<le> c" "c < 100" | "100 \<le> c" "c < 1000" | "1000 \<le> c"
    by linarith
  then show ?thesis
  proof cases
    case 1
    then show ?thesis by (simp add: str_nat.simps [of c] zfill_cases)
  next
    case 2
    then have a: "c div 10 < 10" "\<not> c < 10" by auto
    show ?thesis
      using 2 by (simp add: str_nat.simps [of c] str_nat.simps [of "c div 10"] a zfill_cases)
  next
    case 3
    then have a: "\<not> c < 10" "\<not> c div 10 < 10" "c div 10 div 10 < 10" by auto
    have b: "c div 10 div 10 = c div 100" by (simp add: div_mult2_eq [symmetric])
    show ?thesis
      using 3 by (simp add: str_nat.simps [of c] str_nat.simps [of "c div 10"]
          str_nat.simps [of "c div 10 div 10"] a zfill_cases)
  next
    case 4
    with assms have a: "\<not> c < 10" "\<not> c div 10 < 10" "\<not> c div 10 div 10 < 10"
      "c div 10 div 10 div 10 < 10" by auto
    have b: "c div 10 div 10 = c div 100" "c div 10 div 10 div 10 = c div 1000"
      by (simp_all add: div_mult2_eq [symmetric])
    show ?thesis
      by (simp add: str_nat.simps [of c] str_nat.simps [of "c div 10"]
          str_nat.simps [of "c div 10 div 10"] str_nat.simps [of "c div 10 div 10 div 10"]
          a zfill_cases) (simp add: b)
  qed
qed


text \<open>Unescaping reads an escape back and keeps every other code point.\<close>

lemma percent_not_word: "\<not> is_word cfg 37" "\<not> is_word cfg 43" "\<not> is_word cfg 46" "\<not> is_word cfg 10"
  by (simp_all add: is_word_def)

lemma digit_value_ascii: "d < 10 \<Longrightarrow> digit_value cfg (48 + d) = Some d"
  by (simp add: digit_value_def)

lemma digit_is_word: "d < 10 \<Longrightarrow> is_word cfg (48 + d)"
  by (simp add: is_word_def)

lemma unescape_other: "p \<noteq> 37 \<Longrightarrow> unescape cfg (p # cs) = p # unescape cfg cs"
proof -
  assume p: "p \<noteq> 37"
  show ?thesis
  proof (cases cs)
    case Nil
    then show ?thesis by simp
  next
    case (Cons a as)
    note c1 = this
    show ?thesis
    proof (cases as)
      case Nil
      with c1 show ?thesis by simp
    next
      case (Cons b bs)
      note c2 = this
      show ?thesis
      proof (cases bs)
        case Nil
        with c1 c2 show ?thesis by simp
      next
        case (Cons c cs')
        note c3 = this
        show ?thesis
        proof (cases cs')
          case Nil
          with c1 c2 c3 show ?thesis by simp
        next
          case (Cons d ds)
          with c1 c2 c3 p show ?thesis by (simp split: option.splits)
        qed
      qed
    qed
  qed
qed

lemma four_digits_value:
  "1000 * (c div 1000) + 100 * (c div 100 mod 10) + 10 * (c div 10 mod 10) + c mod 10 = (c::nat)"
proof -
  have e1: "c = 10 * (c div 10) + c mod 10" by simp
  have "c div 10 = 10 * (c div 10 div 10) + c div 10 mod 10" by simp
  then have e2: "c div 10 = 10 * (c div 100) + c div 10 mod 10"
    by (simp add: div_mult2_eq [symmetric])
  have "c div 100 = 10 * (c div 100 div 10) + c div 100 mod 10" by simp
  then have e3: "c div 100 = 10 * (c div 1000) + c div 100 mod 10"
    by (simp add: div_mult2_eq [symmetric])
  from e1 e2 e3 show ?thesis by linarith
qed

lemma four_digits_small:
  assumes "(c::nat) < 10000"
  shows "c div 1000 < 10"
  using assms by (simp add: less_mult_imp_div_less)

lemma unescape_escape:
  assumes "c < 10000"
  shows "unescape cfg (37 # zfill 4 (str_nat c) @ rest) = c # unescape cfg rest"
proof -
  have d: "digit_value cfg (48 + c div 1000) = Some (c div 1000)"
    "digit_value cfg (48 + c div 100 mod 10) = Some (c div 100 mod 10)"
    "digit_value cfg (48 + c div 10 mod 10) = Some (c div 10 mod 10)"
    "digit_value cfg (48 + c mod 10) = Some (c mod 10)"
    using four_digits_small [OF assms] by (simp_all add: digit_value_ascii)
  have "unescape cfg (37 # (48 + c div 1000) # (48 + c div 100 mod 10) # (48 + c div 10 mod 10) #
          (48 + c mod 10) # rest) =
        (1000 * (c div 1000) + 100 * (c div 100 mod 10) + 10 * (c div 10 mod 10) + c mod 10) #
          unescape cfg rest"
    by (simp only: unescape.simps d prod.case option.case if_True refl)
  then show ?thesis
    by (simp only: str_nat_digits [OF assms] four_digits_value append_Cons append_Nil)
qed

lemma unescape_encode_char:
  assumes "\<not> is_word cfg c \<longrightarrow> c < 10000"
  shows "unescape cfg (encode_char cfg c @ rest) = c # unescape cfg rest"
proof (cases "is_word cfg c")
  case True
  then have "c \<noteq> 37" using percent_not_word(1) by auto
  with True show ?thesis by (simp add: encode_char_def unescape_other)
next
  case False
  with assms have "c < 10000" by simp
  with False show ?thesis by (simp add: encode_char_def unescape_escape)
qed

lemma unescape_encode_name:
  "\<forall>c \<in> set name. \<not> is_word cfg c \<longrightarrow> c < 10000 \<Longrightarrow>
   unescape cfg (encode_name cfg name) = name"
proof (induction name)
  case Nil
  then show ?case by (simp add: encode_name_def)
next
  case (Cons c name)
  then have "unescape cfg (encode_name cfg name) = name" by simp
  moreover have "unescape cfg (encode_char cfg c @ encode_name cfg name) =
                 c # unescape cfg (encode_name cfg name)"
    using Cons.prems by (intro unescape_encode_char) simp
  ultimately show ?case by (simp add: encode_name_def)
qed


text \<open>The encoded name holds word characters and percent signs only.\<close>

lemma str_nat_chars: "d \<in> set (str_nat n) \<Longrightarrow> 48 \<le> d \<and> d \<le> 57"
proof (induction n rule: str_nat.induct)
  case (1 n)
  show ?case
  proof (cases "n < 10")
    case True
    with "1.prems" show ?thesis by (simp add: str_nat.simps [of n])
  next
    case False
    have "n mod 10 < 10" by simp
    then have "48 + n mod 10 \<le> 57" by linarith
    with False "1.prems" "1.IH" show ?thesis
      by (auto simp: str_nat.simps [of n])
  qed
qed

lemma encode_char_chars: "d \<in> set (encode_char cfg c) \<Longrightarrow> is_word cfg d \<or> d = 37"
  by (auto simp: encode_char_def zfill_def is_word_def dest: str_nat_chars split: if_splits)

lemma encode_name_chars: "d \<in> set (encode_name cfg name) \<Longrightarrow> is_word cfg d \<or> d = 37"
  by (auto simp: encode_name_def dest: encode_char_chars)

text \<open>The lazy group stops at the first code point of the literal that follows it.\<close>

lemma startswith_append: "startswith (s @ t) s"
  by (induction s) simp_all

lemma capture_lazy_literal:
  "\<forall>c \<in> set body. c \<noteq> s0 \<and> c \<noteq> 10 \<Longrightarrow>
   capture_lazy (\<lambda>r. startswith r (s0 # suf)) (body @ s0 # suf) = Some body"
proof (induction body)
  case Nil
  have "startswith ((s0 # suf) @ []) (s0 # suf)" by (rule startswith_append)
  then show ?case by simp
next
  case (Cons c body)
  then show ?case by simp
qed

lemma split_chr_at: "sep \<notin> set a \<Longrightarrow> split_chr sep (a @ sep # b) = a # split_chr sep b"
  by (induction a) auto

text \<open>
  The round trip holds where the escape has exactly four digits: a template whose text
  after the placeholder starts with a code point that is neither a word character nor a
  percent or plus sign (such as \<^verbatim>\<open>@\<close>), a token of word characters, and a name whose
  escaped code points are all below 10000.
\<close>

lemma round_trip_below_10000:
  assumes pat: "EMAIL_GATEWAY_PATTERN cfg = Template pre (s0 # suf)"
    and hack: "EMAIL_GATEWAY_EXTRA_PATTERN_HACK cfg = None"
    and s0: "\<not> is_word cfg s0" "s0 \<noteq> 37" "s0 \<noteq> 43"
    and small: "\<forall>c \<in> set name. \<not> is_word cfg c \<longrightarrow> c < 10000"
    and legal: "\<forall>c \<in> set token. is_word cfg c"
  shows "decode_email_address cfg (encode_email_address_helper cfg name token) = Inr (name, token)"
proof -
  let ?seg = "encode_name cfg name @ 43 # token"
  have enc: "encode_email_address_helper cfg name token =
               pre @ encode_name cfg name @ 43 # token @ s0 # suf"
    by (simp add: encode_email_address_helper_def pat Let_def)
  have chars: "\<forall>c \<in> set ?seg. is_word cfg c \<or> c = 37 \<or> c = 43"
    using legal encode_name_chars [of _ cfg name] by auto
  have "\<forall>c \<in> set ?seg. c \<noteq> s0 \<and> c \<noteq> 10"
    using chars s0 percent_not_word(4) [of cfg] by auto
  then have cap: "capture_lazy (\<lambda>r. startswith r (s0 # suf)) (?seg @ s0 # suf) = Some ?seg"
    by (rule capture_lazy_literal)
  have tp: "trailing_part cfg (s0 # suf) = (\<lambda>r. startswith r (s0 # suf))"
    by (simp add: fun_eq_iff trailing_part_def hack)
  have seg: "get_email_gateway_message_string_from_address cfg
               (pre @ encode_name cfg name @ 43 # token @ s0 # suf) = Inr ?seg"
    using cap
    by (simp add: get_email_gateway_message_string_from_address_def pat tp startswith_append)
  have nodot: "46 \<notin> set ?seg"
    using chars percent_not_word(3) [of cfg] by auto
  have "43 \<notin> set (encode_name cfg name)"
    using encode_name_chars [of 43 cfg name] percent_not_word(2) [of cfg] by auto
  then have sp1: "split_chr 43 ?seg = encode_name cfg name # split_chr 43 token"
    by (rule split_chr_at)
  have "43 \<notin> set token"
    using legal percent_not_word(2) [of cfg] by auto
  then have sp2: "split_chr 43 token = [token]"
    by (rule split_chr_absent)
  show ?thesis
    unfolding enc
    using nodot
    by (simp add: decode_email_address_def seg sp1 sp2 unescape_encode_name [OF small])
qed

text \<open>
  C1: the round trip is claimed for every channel name. For the name made of the one
  code point U+1F600, which is not alphanumeric, the escape is \<^verbatim>\<open>%128512\<close>, six digits;
  decoding reads \<^verbatim>\<open>%1285\<close> as U+0505 and keeps \<^verbatim>\<open>12\<close>, so the decoded name has three
  code points and is not the name that was encoded.
\<close>

theorem round_trip_fails_beyond_four_digits:
  assumes "EMAIL_GATEWAY_PATTERN cfg = Template [] (ustr ''@example.com'')"
    and "EMAIL_GATEWAY_EXTRA_PATTERN_HACK cfg = None"
    and "\<not> uni_alnum cfg grinning_face"
  shows "encode_email_address_helper cfg [grinning_face] (ustr ''abc'') =
           ustr ''%128512+abc@example.com'' \<and>
         decode_email_address cfg (encode_email_address_helper cfg [grinning_face] (ustr ''abc'')) =
           Inr ([1285, 49, 50], ustr ''abc'') \<and>
         [1285, 49, 50] \<noteq> [grinning_face]"
proof -
  have digits: "str_nat 128512 = [49, 50, 56, 53, 49, 50]"
    by (simp add: str_nat.simps)
  have enc: "encode_email_address_helper cfg [grinning_face] (ustr ''abc'') =
           ustr ''%128512+abc@example.com''"
    using assms
    by (simp add: encode_email_address_helper_def encode_name_def encode_char_def is_word_def
        grinning_face_def digits zfill_def ustr_def)
  have seg: "get_email_gateway_message_string_from_address cfg (ustr ''%128512+abc@example.com'') =
           Inr (ustr ''%128512+abc'')"
    using assms(1,2)
    by (simp add: get_email_gateway_message_string_from_address_def trailing_part_def ustr_def)
  have dec: "decode_email_address cfg (ustr ''%128512+abc@example.com'') =
           Inr ([1285, 49, 50], ustr ''abc'')"
    by (simp add: decode_email_address_def seg) (simp add: ustr_def digit_value_def)
  show ?thesis
    using enc dec by (simp add: grinning_face_def)
qed

lemma example_no_hack: "EMAIL_GATEWAY_EXTRA_PATTERN_HACK example_settings = None"
  by (simp add: example_settings_def)

lemma example_not_alnum: "\<not> uni_alnum example_settings grinning_face"
  by (simp add: example_settings_def)

theorem round_trip_fails_beyond_four_digits_witness:
  "decode_email_address example_settings
     (encode_email_address_helper example_settings [grinning_face] (ustr ''abc'')) =
   Inr ([1285, 49, 50], ustr ''abc'')"
  using round_trip_fails_beyond_four_digits [OF example_template example_no_hack example_not_alnum]
  by (rule_tac conjunct1 [OF conjunct2])


text \<open>The second scenario of the specification, by the lemma above.\<close>

lemma example_template_at:
  "EMAIL_GATEWAY_PATTERN example_settings = Template [] (64 # ustr ''example.com'')"
  by (simp add: example_settings_def ustr_def)

lemma round_trip_scenario:
  "decode_email_address example_settings
     (encode_email_address_helper example_settings (ustr ''sales/eu'') (ustr ''abc123'')) =
   Inr (ustr ''sales/eu'', ustr ''abc123'')"
proof (rule round_trip_below_10000 [OF example_template_at example_no_hack])
  show "\<not> is_word example_settings 64" "(64::nat) \<noteq> 37" "(64::nat) \<noteq> 43"
    by (simp_all add: is_word_def)
  show "\<forall>c \<in> set (ustr ''sales/eu''). \<not> is_word example_settings c \<longrightarrow> c < 10000"
    by (simp add: ustr_def)
  show "\<forall>c \<in> set (ustr ''abc123''). is_word example_settings c"
    by (simp add: ustr_def is_word_def)
qed

end
